theory Spec2Isabelle
  imports Main
begin

section \<open>JavaScript values and strings\<close>

text \<open>
  Strings are \<^typ>\<open>string\<close> (character lists) holding the UTF-8 bytes of a well-formed
  text. A credit item is a JSON object: a list of key/value pairs whose first binding of
  a key is the property. A property that is absent reads as \<^verbatim>\<open>undefined\<close>, here
  \<^term>\<open>None\<close>. A JSON number is held by its value when that is an integer; numbers with
  a fraction are outside the model.
\<close>

datatype jsval =
    JNull
  | JBool bool
  | JNum int
  | JStr string
  | JObj "(string \<times> jsval) list"
  | JArr "jsval list"

type_synonym item = "(string \<times> jsval) list"

definition getProp :: "item \<Rightarrow> string \<Rightarrow> jsval option" where
  "getProp obj k = map_of obj k"

text \<open>Truthiness: \<^verbatim>\<open>undefined\<close>, \<^verbatim>\<open>null\<close>, \<^verbatim>\<open>false\<close>, \<^verbatim>\<open>0\<close> and \<^verbatim>\<open>""\<close> are falsy.\<close>

fun truthy :: "jsval option \<Rightarrow> bool" where
  "truthy None = False"
| "truthy (Some JNull) = False"
| "truthy (Some (JBool b)) = b"
| "truthy (Some (JNum n)) = (n \<noteq> 0)"
| "truthy (Some (JStr s)) = (s \<noteq> [])"
| "truthy (Some (JObj ps)) = True"
| "truthy (Some (JArr xs)) = True"

text \<open>\<^verbatim>\<open>a || b\<close>\<close>

definition jor :: "jsval option \<Rightarrow> jsval option \<Rightarrow> jsval option" where
  "jor a b = (if truthy a then a else b)"

text \<open>\<^verbatim>\<open>a || 'literal'\<close>, whose value is never \<^verbatim>\<open>undefined\<close>\<close>

definition jorStr :: "jsval option \<Rightarrow> string \<Rightarrow> jsval" where
  "jorStr a d = (case a of Some v \<Rightarrow> (if truthy (Some v) then v else JStr d) | None \<Rightarrow> JStr d)"

text \<open>\<^verbatim>\<open>a === 'literal'\<close>\<close>

definition eqStr :: "jsval option \<Rightarrow> string \<Rightarrow> bool" where
  "eqStr a s = (a = Some (JStr s))"

text \<open>\<^verbatim>\<open>obj?.[k]\<close>: \<^verbatim>\<open>undefined\<close> on \<^verbatim>\<open>null\<close>/\<^verbatim>\<open>undefined\<close>; a primitive or an array has
  no property of the names read this way.\<close>

definition optProp :: "jsval option \<Rightarrow> string \<Rightarrow> jsval option" where
  "optProp a k = (case a of Some (JObj ps) \<Rightarrow> map_of ps k | _ \<Rightarrow> None)"

subsection \<open>String primitives\<close>

text \<open>\<^verbatim>\<open>s.length\<close>: the number of UTF-16 code units of the text whose UTF-8 bytes are \<open>s\<close>.
  Every byte that starts a character counts one, a byte that starts a four-byte
  character (a surrogate pair) counts two, continuation bytes count nothing.\<close>

definition jsLength :: "string \<Rightarrow> nat" where
  "jsLength s =
     length (filter (\<lambda>c. \<not> (128 \<le> (of_char c :: nat) \<and> (of_char c :: nat) < 192)) s) +
     length (filter (\<lambda>c. 240 \<le> (of_char c :: nat)) s)"

fun startsWith :: "string \<Rightarrow> string \<Rightarrow> bool" where
  "startsWith s [] = True"
| "startsWith [] (p # ps) = False"
| "startsWith (c # cs) (p # ps) = (c = p \<and> startsWith cs ps)"

text \<open>\<^verbatim>\<open>s.includes(pat)\<close>\<close>

fun str_includes :: "string \<Rightarrow> string \<Rightarrow> bool" where
  "str_includes [] pat = (pat = [])"
| "str_includes (c # cs) pat = (startsWith (c # cs) pat \<or> str_includes cs pat)"

text \<open>
  The white space and line terminator characters that \<^verbatim>\<open>trim\<close> and \<^verbatim>\<open>parseInt\<close>
  strip, each as its UTF-8 bytes: U+0009 to U+000D, U+0020, U+00A0, U+1680,
  U+2000 to U+200A, U+2028, U+2029, U+202F, U+205F, U+3000, U+FEFF.
\<close>

definition jsWhiteSpace :: "string list" where
  "jsWhiteSpace =
    [[CHR 0x09], [CHR 0x0A], [CHR 0x0B], [CHR 0x0C], [CHR 0x0D], [CHR 0x20],
     [CHR 0xC2, CHR 0xA0],
     [CHR 0xE1, CHR 0x9A, CHR 0x80],
     [CHR 0xE2, CHR 0x80, CHR 0x80], [CHR 0xE2, CHR 0x80, CHR 0x81],
     [CHR 0xE2, CHR 0x80, CHR 0x82], [CHR 0xE2, CHR 0x80, CHR 0x83],
     [CHR 0xE2, CHR 0x80, CHR 0x84], [CHR 0xE2, CHR 0x80, CHR 0x85],
     [CHR 0xE2, CHR 0x80, CHR 0x86], [CHR 0xE2, CHR 0x80, CHR 0x87],
     [CHR 0xE2, CHR 0x80, CHR 0x88], [CHR 0xE2, CHR 0x80, CHR 0x89],
     [CHR 0xE2, CHR 0x80, CHR 0x8A],
     [CHR 0xE2, CHR 0x80, CHR 0xA8], [CHR 0xE2, CHR 0x80, CHR 0xA9],
     [CHR 0xE2, CHR 0x80, CHR 0xAF],
     [CHR 0xE2, CHR 0x81, CHR 0x9F],
     [CHR 0xE3, CHR 0x80, CHR 0x80],
     [CHR 0xEF, CHR 0xBB, CHR 0xBF]]"

text \<open>Strip, from the front, every leading occurrence of one of the sequences \<open>ws\<close>.
  The fuel is the length of the string: each round removes at least one character.\<close>

fun stripLeading :: "string list \<Rightarrow> nat \<Rightarrow> string \<Rightarrow> string" where
  "stripLeading ws 0 s = s"
| "stripLeading ws (Suc n) s =
     (case find (\<lambda>w. w \<noteq> [] \<and> startsWith s w) ws of
        Some w \<Rightarrow> stripLeading ws n (drop (length w) s)
      | None \<Rightarrow> s)"

definition trimStart :: "string \<Rightarrow> string" where
  "trimStart s = stripLeading jsWhiteSpace (length s) s"

definition trimEnd :: "string \<Rightarrow> string" where
  "trimEnd s = rev (stripLeading (map rev jsWhiteSpace) (length s) (rev s))"

text \<open>\<^verbatim>\<open>s.trim()\<close>\<close>

definition trim :: "string \<Rightarrow> string" where
  "trim s = trimEnd (trimStart s)"

text \<open>\<^verbatim>\<open>xs.join(',')\<close> on strings\<close>

fun joinComma :: "string list \<Rightarrow> string" where
  "joinComma [] = []"
| "joinComma [s] = s"
| "joinComma (s # t # ss) = s @ '','' @ joinComma (t # ss)"

subsection \<open>Numbers\<close>

fun digitVal :: "char \<Rightarrow> nat option" where
  "digitVal c =
     (let n = of_char c :: nat in
      if 48 \<le> n \<and> n \<le> 57 then Some (n - 48)
      else if 97 \<le> n \<and> n \<le> 122 then Some (n - 87)
      else if 65 \<le> n \<and> n \<le> 90 then Some (n - 55)
      else None)"

definition isDigitIn :: "nat \<Rightarrow> char \<Rightarrow> bool" where
  "isDigitIn radix c = (case digitVal c of Some d \<Rightarrow> d < radix | None \<Rightarrow> False)"

text \<open>The integer that a run of digits denotes\<close>

definition digitsValue :: "nat \<Rightarrow> string \<Rightarrow> int" where
  "digitsValue radix ds =
     foldl (\<lambda>acc c. acc * int radix + (case digitVal c of Some d \<Rightarrow> int d | None \<Rightarrow> 0)) 0 ds"

text \<open>The number of binary digits of a positive integer\<close>

function bitLength :: "int \<Rightarrow> nat" where
  "bitLength n = (if n \<le> 0 then 0 else Suc (bitLength (n div 2)))"
  by pat_completeness auto

termination
  by (relation "measure nat") auto

declare bitLength.simps [simp del]

text \<open>
  A JavaScript number is a double. The integer a digit string denotes (none is
  negative) becomes the nearest double, with 53 significant binary digits and a tie going to the even
  neighbour; from \<open>2 ^ 1024\<close> on the result is \<^verbatim>\<open>Infinity\<close>, which is held here as
  \<open>2 ^ 1024\<close> (above every finite double, and not above itself).
\<close>

definition roundToDouble :: "int \<Rightarrow> int" where
  "roundToDouble n =
     (if n < 2 ^ 53 then n
      else
        (let e = bitLength n - 53;
             q = n div 2 ^ e;
             r = n mod 2 ^ e;
             half = 2 ^ (e - 1);
             q' = (if r > half \<or> (r = half \<and> odd q) then q + 1 else q)
         in min (q' * 2 ^ e) (2 ^ 1024)))"

text \<open>
  \<^verbatim>\<open>parseInt(s)\<close> with no radix argument: leading white space is skipped, then an
  optional sign, then an optional \<^verbatim>\<open>0x\<close>/\<^verbatim>\<open>0X\<close> prefix that selects radix 16, then the
  longest run of digits. No digit at all gives \<^verbatim>\<open>NaN\<close>, here \<^term>\<open>None\<close>. Every digit
  counts (the language lets a host read the decimal digits after the twentieth as 0).
\<close>

definition parseIntStr :: "string \<Rightarrow> int option" where
  "parseIntStr s =
     (let s1 = trimStart s;
          neg = startsWith s1 ''-'';
          s2 = (if startsWith s1 ''-'' \<or> startsWith s1 ''+'' then tl s1 else s1);
          hex = (startsWith s2 ''0x'' \<or> startsWith s2 ''0X'');
          radix = (if hex then 16 else 10);
          s3 = (if hex then drop 2 s2 else s2);
          ds = takeWhile (isDigitIn radix) s3
      in if ds = [] then None
         else Some ((if neg then - 1 else 1) * roundToDouble (digitsValue radix ds)))"

text \<open>\<^verbatim>\<open>String(n)\<close> for a natural number below \<open>10 ^ 21\<close>: its decimal digits\<close>

fun showNat :: "nat \<Rightarrow> string" where
  "showNat n =
     (if n < 10 then [char_of (48 + n)]
      else showNat (n div 10) @ [char_of (48 + n mod 10)])"

declare showNat.simps [simp del]

text \<open>\<^verbatim>\<open>a > b\<close> on numbers: false as soon as one side is \<^verbatim>\<open>NaN\<close>\<close>

fun numGt :: "int option \<Rightarrow> int option \<Rightarrow> bool" where
  "numGt (Some a) (Some b) = (a > b)"
| "numGt _ _ = False"

text \<open>\<^verbatim>\<open>String(n).padStart(3, '0')\<close>\<close>

definition padStart3 :: "string \<Rightarrow> string" where
  "padStart3 s = replicate (3 - length s) (CHR ''0'') @ s"

section \<open>The host and the conversions that can throw\<close>

text \<open>
  What the JavaScript host decides is a parameter of the model.
  \<^item> \<open>newDate v\<close> is the time value of \<^verbatim>\<open>new Date(v)\<close> in milliseconds, \<^term>\<open>None\<close> for an
    invalid date (its time value is \<^verbatim>\<open>NaN\<close>); which strings parse is up to the host.
  \<^item> \<open>sevenYearsAgo\<close>, \<open>twoYearsAgo\<close> and \<open>sixMonthsAgo\<close> are the time values of
    \<^verbatim>\<open>new Date()\<close> after \<^verbatim>\<open>setFullYear(getFullYear() - 7)\<close>,
    \<^verbatim>\<open>setFullYear(getFullYear() - 2)\<close> and \<^verbatim>\<open>setMonth(getMonth() - 6)\<close>.
  \<^item> \<open>parseFloatPositive s\<close> is \<^verbatim>\<open>parseFloat(s) > 0\<close>.
  \<^item> \<open>numberToString n\<close> is \<^verbatim>\<open>String(n)\<close> for a number (decimal digits below \<open>10 ^ 21\<close>,
    exponent notation from there on).
  \<^item> \<open>objectPrototypeTruthy k\<close> and \<open>arrayPrototypeTruthy k\<close>: looking the name \<open>k\<close> up from
    \<^verbatim>\<open>Object.prototype\<close>, respectively from \<^verbatim>\<open>Array.prototype\<close>, finds a truthy value.
\<close>

record js_host =
  newDate :: "jsval \<Rightarrow> int option"
  sevenYearsAgo :: int
  twoYearsAgo :: int
  sixMonthsAgo :: int
  parseFloatPositive :: "string \<Rightarrow> bool"
  numberToString :: "int \<Rightarrow> string"
  objectPrototypeTruthy :: "string \<Rightarrow> bool"
  arrayPrototypeTruthy :: "string \<Rightarrow> bool"

text \<open>What the code throws: the error \<^verbatim>\<open>INPUT_TOO_LARGE\<close> with the token count, or a
  \<^verbatim>\<open>TypeError\<close> of the language.\<close>

datatype scan_error =
    InputTooLarge nat
  | TypeError

text \<open>
  Converting an object to a primitive calls its \<^verbatim>\<open>toString\<close> and \<^verbatim>\<open>valueOf\<close>. An object
  parsed from JSON inherits both, unless it has a key \<^verbatim>\<open>toString\<close> of its own: that
  value is not a function, the inherited \<^verbatim>\<open>valueOf\<close> returns the object itself, and the
  conversion throws a TypeError. An array converts by joining its elements, each
  converted in turn.
\<close>

fun throwsOnToString :: "jsval \<Rightarrow> bool" where
  "throwsOnToString (JObj ps) = (map_of ps ''toString'' \<noteq> None)"
| "throwsOnToString (JArr xs) = list_ex throwsOnToString xs"
| "throwsOnToString JNull = False"
| "throwsOnToString (JBool b) = False"
| "throwsOnToString (JNum n) = False"
| "throwsOnToString (JStr s) = False"

fun jsText :: "js_host \<Rightarrow> jsval \<Rightarrow> string" where
  "jsText h JNull = ''null''"
| "jsText h (JBool b) = (if b then ''true'' else ''false'')"
| "jsText h (JNum n) = numberToString h n"
| "jsText h (JStr s) = s"
| "jsText h (JObj ps) = ''[object Object]''"
| "jsText h (JArr xs) = joinComma (map (\<lambda>x. if x = JNull then [] else jsText h x) xs)"

text \<open>\<^verbatim>\<open>String(v)\<close>, the conversion that \<^verbatim>\<open>parseInt\<close>, \<^verbatim>\<open>parseFloat\<close>, template strings and
  property keys apply to a value\<close>

definition toStr :: "js_host \<Rightarrow> jsval \<Rightarrow> scan_error + string" where
  "toStr h v = (if throwsOnToString v then Inl TypeError else Inr (jsText h v))"

definition parseInt :: "js_host \<Rightarrow> jsval \<Rightarrow> scan_error + int option" where
  "parseInt h v = (case toStr h v of Inl e \<Rightarrow> Inl e | Inr s \<Rightarrow> Inr (parseIntStr s))"

text \<open>\<^verbatim>\<open>new Date(v)\<close>: an object or array is converted to a primitive first, which throws
  in the same cases; the time value is the host's.\<close>

definition dateOf :: "js_host \<Rightarrow> jsval \<Rightarrow> scan_error + int option" where
  "dateOf h v = (if throwsOnToString v then Inl TypeError else Inr (newDate h v))"

text \<open>\<^verbatim>\<open>a < b\<close> on two dates: false when the left one is invalid\<close>

fun dateBefore :: "int option \<Rightarrow> int \<Rightarrow> bool" where
  "dateBefore (Some t) c = (t < c)"
| "dateBefore None c = False"

fun dateAfter :: "int option \<Rightarrow> int \<Rightarrow> bool" where
  "dateAfter (Some t) c = (t > c)"
| "dateAfter None c = False"

text \<open>\<^verbatim>\<open>if (d) { ... new Date(d) < cutoff ... }\<close> and the same with \<^verbatim>\<open>>\<close>: the date is built
  only for a truthy field.\<close>

definition dateIsBefore :: "js_host \<Rightarrow> jsval option \<Rightarrow> int \<Rightarrow> scan_error + bool" where
  "dateIsBefore h d cutoff =
     (case d of
        None \<Rightarrow> Inr False
      | Some v \<Rightarrow>
          if truthy (Some v)
          then (case dateOf h v of Inl e \<Rightarrow> Inl e | Inr t \<Rightarrow> Inr (dateBefore t cutoff))
          else Inr False)"

definition dateIsAfter :: "js_host \<Rightarrow> jsval option \<Rightarrow> int \<Rightarrow> scan_error + bool" where
  "dateIsAfter h d cutoff =
     (case d of
        None \<Rightarrow> Inr False
      | Some v \<Rightarrow>
          if truthy (Some v)
          then (case dateOf h v of Inl e \<Rightarrow> Inl e | Inr t \<Rightarrow> Inr (dateAfter t cutoff))
          else Inr False)"

section \<open>CRC knowledge integration (crc-knowledge-integration.ts)\<close>

definition crcDerogatoryText :: string where
  "crcDerogatoryText =
     ''Metro 2 Violation: Inaccurate derogatory data indicator - CRC Furnisher '' @
     ''Framework indicates direct furnisher pressure required [Field 04]''"

definition crcChargeoffText :: string where
  "crcChargeoffText =
     ''Metro 2 Violation: Charge-off reporting without proper validation - CRC Advanced '' @
     ''Disputing shows charge-offs don'' @
     [CHR 0x27] @
     ''t mean debt forgiveness [Field 06]''"

definition crcCollectionText :: string where
  "crcCollectionText =
     ''Metro 2 Violation: Collection reporting without FDCPA compliance - CRC knowledge '' @
     ''requires 3rd party collector validation [Field 07]''"

definition crcPastDueText :: string where
  "crcPastDueText =
     ''FCRA Violation: Inaccurate past due amount reporting without proper verification '' @
     ''[FCRA '' @
     [CHR 0xE0, CHR 0xB8, CHR 0xA2, CHR 0xE0, CHR 0xB8, CHR 0x87] @
     '' 623(a)] - CRC Basic Course shows payment history is 35% of credit score''"

definition crcDofdText :: string where
  "crcDofdText =
     ''FCRA Violation: Disputed date of first delinquency requires reinvestigation '' @
     ''[FCRA '' @
     [CHR 0xE0, CHR 0xB8, CHR 0xA2, CHR 0xE0, CHR 0xB8, CHR 0x87] @
     '' 611] - CRC Advanced Letters show 30-day reinvestigation requirement under 15 '' @
     ''U.S.C. Sec. 1681i(a)''"

definition crcValidationText :: string where
  "crcValidationText =
     ''FDCPA Violation: Collection account lacks proper debt validation - CRC Workbook '' @
     ''shows validation demand rights under 15 USC 1692g Sec. 809 (8)''"

definition crcDisputedText :: string where
  "crcDisputedText =
     ''FDCPA Violation: Continued reporting of disputed debt without validation - CRC '' @
     ''Advanced Letters show estoppel by silence strategy applies''"

text \<open>\<^verbatim>\<open>x && parseFloat(x) > 0\<close>: the conversion of a truthy value to a string can throw.\<close>

definition positiveAmount :: "js_host \<Rightarrow> jsval option \<Rightarrow> scan_error + bool" where
  "positiveAmount h a =
     (case a of
        None \<Rightarrow> Inr False
      | Some v \<Rightarrow>
          if truthy (Some v)
          then (case toStr h v of Inl e \<Rightarrow> Inl e | Inr s \<Rightarrow> Inr (parseFloatPositive h s))
          else Inr False)"

text \<open>\<^verbatim>\<open>generateCRCViolations\<close>: the keys read here carry no \<^verbatim>\<open>@_\<close> prefix.\<close>

definition generateCRCViolations :: "js_host \<Rightarrow> item \<Rightarrow> scan_error + string list" where
  "generateCRCViolations h accountData =
     (case positiveAmount h (getProp accountData ''PastDueAmount'') of
        Inl e \<Rightarrow> Inl e
      | Inr pastDue \<Rightarrow> Inr (
          (if eqStr (getProp accountData ''DerogatoryDataIndicator'') ''Y''
           then [crcDerogatoryText] else []) @
          (if eqStr (getProp accountData ''IsChargeoffIndicator'') ''Y''
           then [crcChargeoffText] else []) @
          (if eqStr (getProp accountData ''IsCollectionIndicator'') ''Y''
           then [crcCollectionText] else []) @
          (if pastDue then [crcPastDueText] else []) @
          (if truthy (getProp accountData ''DateOfFirstDelinquency'')
           then [crcDofdText] else []) @
          (if eqStr (getProp accountData ''AccountType'') ''Collection'' \<or>
              eqStr (getProp accountData ''IsCollectionIndicator'') ''Y''
           then [crcValidationText, crcDisputedText] else [])))"

definition generateSourceCitation :: "string \<Rightarrow> string" where
  "generateSourceCitation violationType =
     (if str_includes violationType ''Metro 2''
        then ''Source: CRC Advanced Disputing Workbook, Page 3-46''
      else if str_includes violationType ''FCRA''
        then ''Source: CRC Basic Disputing Course, Page 1-15''
      else if str_includes violationType ''FDCPA''
        then ''Source: CRC Top 10 Advanced Dispute Letters, Page 1-292''
      else ''Source: CRC Advanced Disputing Workbook, Page 3-46'')"

section \<open>Compliance resource validator (compliance-resource-validator.ts)\<close>

record ValidatedViolation =
  violation :: string
  source :: string
  page :: "string option"
  sectionRef :: "string option"
  isValidated :: bool

record ComplianceValidationResult =
  violations :: "ValidatedViolation list"
  suggestions :: "string list"
  hasViolations :: bool
  noViolationMessage :: "string option"

definition NO_VIOLATION_MESSAGE :: string where
  "NO_VIOLATION_MESSAGE = ''No Metro 2 / FCRA / FDCPA violation detected for this item.''"

text \<open>The record pushed for a CRC violation string\<close>

definition crcViolation :: "string \<Rightarrow> ValidatedViolation" where
  "crcViolation v =
     \<lparr>violation = v, source = generateSourceCitation v, page = None, sectionRef = None,
      isValidated = True\<rparr>"

subsection \<open>The violations the validator pushes\<close>

definition missingDofdViolation :: ValidatedViolation where
  "missingDofdViolation =
     \<lparr>violation =
        ''Metro 2 Violation: Missing Date of First Delinquency [Field 30] - Required '' @
        ''for accounts 180+ days delinquent'',
      source = ''CRC Advanced Disputing Workbook, Page 3-46'',
      page = Some ''Section 4.2.1'', sectionRef = None, isValidated = True\<rparr>"

definition statusRatingViolation :: ValidatedViolation where
  "statusRatingViolation =
     \<lparr>violation =
        ''Metro 2 Violation: Account Status inconsistent with Payment Rating [Field 13] '' @
        ''- Closed status conflicts with delinquent payment code'',
      source = ''Credit Reporting Resource Guide 2020'',
      page = Some ''Section 3.1.4'', sectionRef = None, isValidated = True\<rparr>"

definition termsDurationViolation :: ValidatedViolation where
  "termsDurationViolation =
     \<lparr>violation =
        ''Metro 2 Violation: Invalid Terms Duration format [Field 16] - Must be 3 '' @
        ''digits, zero-filled'',
      source = ''Credit Reporting Resource Guide 2020'',
      page = Some ''Section 2.3.7'', sectionRef = None, isValidated = True\<rparr>"

definition balanceLimitViolation :: ValidatedViolation where
  "balanceLimitViolation =
     \<lparr>violation =
        ''Metro 2 Violation: Current Balance exceeds Credit Limit [Field 06] - Balance '' @
        ''cannot exceed established credit limit'',
      source = ''Credit Reporting Resource Guide 2020'',
      page = Some ''Section 2.2.3'', sectionRef = None, isValidated = True\<rparr>"

definition outdatedAccountViolation :: ValidatedViolation where
  "outdatedAccountViolation =
     \<lparr>violation =
        ''FCRA Violation: Outdated negative account - accounts older than 7 years '' @
        ''violate FCRA '' @
        [CHR 0xC2, CHR 0xA7] @
        '' 605(a)(4)'',
      source = ''CRC Basic Disputing Course, Page 1-15'',
      page = Some ''Page 3'', sectionRef = Some ''Violation #1'', isValidated = True\<rparr>"

definition bankruptcyViolation :: ValidatedViolation where
  "bankruptcyViolation =
     \<lparr>violation =
        ''FCRA Violation: Bankruptcy discharge inaccuracies - discharged debts showing '' @
        ''positive balance violate FCRA '' @
        [CHR 0xC2, CHR 0xA7] @
        '' 605(a)(1)'',
      source = ''FCRA Top 10 Violations Guide'',
      page = Some ''Page 4'', sectionRef = Some ''Violation #2'', isValidated = True\<rparr>"

definition duplicateViolation :: ValidatedViolation where
  "duplicateViolation =
     \<lparr>violation =
        ''FCRA Violation: Potential duplicate account - same account reported multiple '' @
        ''times violates FCRA '' @
        [CHR 0xC2, CHR 0xA7] @
        '' 623(a)(1)(B)'',
      source = ''FCRA Top 10 Violations Guide'',
      page = Some ''Page 5'', sectionRef = Some ''Violation #3'', isValidated = True\<rparr>"

definition misrepresentViolation :: ValidatedViolation where
  "misrepresentViolation =
     \<lparr>violation =
        ''FDCPA Violation: Misrepresenting the amount owed - collection balance exceeds '' @
        ''original debt violates FDCPA '' @
        [CHR 0xC2, CHR 0xA7] @
        '' 807(2)(A)'',
      source = ''CRC Top 10 Advanced Dispute Letters, Page 1-292'',
      page = Some ''Page 12'', sectionRef = Some ''Section 807 Violations'', isValidated = True\<rparr>"

definition chargeoffActivityViolation :: ValidatedViolation where
  "chargeoffActivityViolation =
     \<lparr>violation =
        ''FDCPA Violation: Continued collection activity on charged-off debt without '' @
        ''proper validation violates FDCPA '' @
        [CHR 0xC2, CHR 0xA7] @
        '' 809(b)'',
      source = ''FDCPA Guide'',
      page = Some ''Page 15'', sectionRef = Some ''Section 809 Violations'', isValidated = True\<rparr>"

definition outdatedRecordViolation :: ValidatedViolation where
  "outdatedRecordViolation =
     \<lparr>violation =
        ''FCRA Violation: Outdated public record - records older than 7 years violate '' @
        ''FCRA '' @
        [CHR 0xC2, CHR 0xA7] @
        '' 605(a)(4)'',
      source = ''FCRA Top 10 Violations Guide'',
      page = Some ''Page 8'', sectionRef = Some ''Violation #6'', isValidated = True\<rparr>"

definition missingConditionCodeViolation :: ValidatedViolation where
  "missingConditionCodeViolation =
     \<lparr>violation =
        ''Metro 2 Violation: Missing Compliance Condition Code [Field 33] - Required '' @
        ''for all public records'',
      source = ''Credit Reporting Resource Guide 2020'',
      page = Some ''Section 5.1.2'', sectionRef = None, isValidated = True\<rparr>"

definition outdatedInquiryViolation :: ValidatedViolation where
  "outdatedInquiryViolation =
     \<lparr>violation =
        ''FCRA Violation: Outdated inquiry - inquiries older than 2 years violate FCRA '' @
        [CHR 0xC2, CHR 0xA7] @
        '' 605(a)(7)'',
      source = ''FCRA Top 10 Violations Guide'',
      page = Some ''Page 9'', sectionRef = Some ''Violation #7'', isValidated = True\<rparr>"

definition missingPurposeViolation :: ValidatedViolation where
  "missingPurposeViolation =
     \<lparr>violation =
        ''Metro 2 Violation: Missing Inquiry Purpose [Field 11] - Required for all '' @
        ''credit inquiries'',
      source = ''Credit Reporting Resource Guide 2020'',
      page = Some ''Section 6.1.1'', sectionRef = None, isValidated = True\<rparr>"

subsection \<open>Account checks\<close>

text \<open>\<^verbatim>\<open>termsDuration.length === 3\<close>: a string has its length in UTF-16 code units, an
  array its number of elements, an object its own \<^verbatim>\<open>length\<close> property if any, a number
  or boolean none.\<close>

definition lengthIs3 :: "jsval \<Rightarrow> bool" where
  "lengthIs3 v =
     (case v of JStr s \<Rightarrow> jsLength s = 3
      | JArr xs \<Rightarrow> length xs = 3
      | JObj ps \<Rightarrow> map_of ps ''length'' = Some (JNum 3)
      | _ \<Rightarrow> False)"

text \<open>\<^verbatim>\<open>termsDuration && (termsDuration.length !== 3 || isNaN(parseInt(termsDuration)))\<close>:
  \<^verbatim>\<open>parseInt\<close> is reached only by a truthy value of length 3.\<close>

definition termsDurationInvalid :: "js_host \<Rightarrow> jsval option \<Rightarrow> scan_error + bool" where
  "termsDurationInvalid h termsDuration =
     (case termsDuration of
        None \<Rightarrow> Inr False
      | Some t \<Rightarrow>
          if \<not> truthy (Some t) then Inr False
          else if \<not> lengthIs3 t then Inr True
          else (case parseInt h t of Inl e \<Rightarrow> Inl e | Inr n \<Rightarrow> Inr (n = None)))"

text \<open>\<^verbatim>\<open>parseInt(account[k] || '0')\<close>\<close>

definition amountField :: "js_host \<Rightarrow> item \<Rightarrow> string \<Rightarrow> scan_error + int option" where
  "amountField h account k = parseInt h (jorStr (getProp account k) ''0'')"

text \<open>The three validators return the list they have pushed to, or throw what a
  conversion throws. The conversions are made in the order of the source.\<close>

definition validateMetro2Violations ::
  "js_host \<Rightarrow> item \<Rightarrow> scan_error + ValidatedViolation list" where
  "validateMetro2Violations h account =
     (let currentRating = optProp (getProp account ''_CURRENT_RATING'') ''@_Code'';
          accountStatus = getProp account ''@_AccountStatus''
      in
      case generateCRCViolations h account of
        Inl e \<Rightarrow> Inl e
      | Inr crcViolations \<Rightarrow>
      (case termsDurationInvalid h (getProp account ''@_TermsDuration'') of
        Inl e \<Rightarrow> Inl e
      | Inr invalidTerms \<Rightarrow>
      (case amountField h account ''@_CurrentBalance'' of
        Inl e \<Rightarrow> Inl e
      | Inr currentBalance \<Rightarrow>
      (case amountField h account ''@_CreditLimit'' of
        Inl e \<Rightarrow> Inl e
      | Inr creditLimit \<Rightarrow> Inr (
        map crcViolation (filter (\<lambda>v. str_includes v ''Metro 2'') crcViolations) @
        (if eqStr (getProp account ''@_DerogatoryDataIndicator'') ''Y'' \<and>
            \<not> truthy (getProp account ''@_DateOfFirstDelinquency'')
         then [missingDofdViolation] else []) @
        (if truthy currentRating \<and>
            currentRating \<in> set (map (\<lambda>c. Some (JStr c))
               [''2'', ''3'', ''4'', ''5'', ''6'', ''7'', ''8'', ''9'']) \<and>
            (eqStr accountStatus ''11'' \<or> eqStr accountStatus ''13'' \<or> eqStr accountStatus ''61'')
         then [statusRatingViolation] else []) @
        (if invalidTerms then [termsDurationViolation] else []) @
        (if numGt creditLimit (Some 0) \<and> numGt currentBalance creditLimit
         then [balanceLimitViolation] else []))))))"

text \<open>\<^verbatim>\<open>parseInt(account['@_CurrentBalance'] || '0') > 0\<close> inside the test of the status:
  the balance is read only for the statuses 61 and 62.\<close>

definition dischargedWithBalance :: "js_host \<Rightarrow> item \<Rightarrow> scan_error + bool" where
  "dischargedWithBalance h account =
     (if eqStr (getProp account ''@_AccountStatus'') ''61'' \<or>
         eqStr (getProp account ''@_AccountStatus'') ''62''
      then (case amountField h account ''@_CurrentBalance'' of
              Inl e \<Rightarrow> Inl e
            | Inr currentBalance \<Rightarrow> Inr (numGt currentBalance (Some 0)))
      else Inr False)"

definition validateFCRAViolations ::
  "js_host \<Rightarrow> item \<Rightarrow> scan_error + ValidatedViolation list" where
  "validateFCRAViolations h account =
     (let accountNumber = getProp account ''@_AccountNumber'';
          subscriberCode = getProp account ''@_SubscriberCode''
      in
      case generateCRCViolations h account of
        Inl e \<Rightarrow> Inl e
      | Inr crcViolations \<Rightarrow>
      (case dateIsBefore h (getProp account ''@_DateOpened'') (sevenYearsAgo h) of
        Inl e \<Rightarrow> Inl e
      | Inr openedBefore \<Rightarrow>
      (case dischargedWithBalance h account of
        Inl e \<Rightarrow> Inl e
      | Inr discharged \<Rightarrow> Inr (
        map crcViolation (filter (\<lambda>v. str_includes v ''FCRA'') crcViolations) @
        (if openedBefore \<and> eqStr (getProp account ''@_DerogatoryDataIndicator'') ''Y''
         then [outdatedAccountViolation] else []) @
        (if discharged then [bankruptcyViolation] else []) @
        (if truthy accountNumber \<and> truthy subscriberCode
         then [duplicateViolation] else [])))))"

text \<open>The collection test: both balances are parsed before they are compared.\<close>

definition collectionExceedsOriginal :: "js_host \<Rightarrow> item \<Rightarrow> scan_error + bool" where
  "collectionExceedsOriginal h account =
     (if eqStr (getProp account ''@IsCollectionIndicator'') ''Y'' \<or>
         eqStr (getProp account ''@IsCollectionIndicator'') ''true''
      then (case amountField h account ''@_CurrentBalance'' of
              Inl e \<Rightarrow> Inl e
            | Inr currentBalance \<Rightarrow>
              (case amountField h account ''@_OriginalBalance'' of
                 Inl e \<Rightarrow> Inl e
               | Inr originalBalance \<Rightarrow> Inr (numGt currentBalance originalBalance)))
      else Inr False)"

definition chargeoffRecentActivity :: "js_host \<Rightarrow> item \<Rightarrow> scan_error + bool" where
  "chargeoffRecentActivity h account =
     (if eqStr (getProp account ''@IsChargeoffIndicator'') ''Y'' \<or>
         eqStr (getProp account ''@IsChargeoffIndicator'') ''true''
      then dateIsAfter h (getProp account ''@_DateLastActivity'') (sixMonthsAgo h)
      else Inr False)"

definition validateFDCPAViolations ::
  "js_host \<Rightarrow> item \<Rightarrow> scan_error + ValidatedViolation list" where
  "validateFDCPAViolations h account =
     (case generateCRCViolations h account of
        Inl e \<Rightarrow> Inl e
      | Inr crcViolations \<Rightarrow>
      (case collectionExceedsOriginal h account of
        Inl e \<Rightarrow> Inl e
      | Inr exceeds \<Rightarrow>
      (case chargeoffRecentActivity h account of
        Inl e \<Rightarrow> Inl e
      | Inr recent \<Rightarrow> Inr (
        map crcViolation (filter (\<lambda>v. str_includes v ''FDCPA'') crcViolations) @
        (if exceeds then [misrepresentViolation] else []) @
        (if recent then [chargeoffActivityViolation] else [])))))"

subsection \<open>Public records and inquiries\<close>

definition publicRecordChecks ::
  "js_host \<Rightarrow> item \<Rightarrow> scan_error + ValidatedViolation list" where
  "publicRecordChecks h record =
     (let dateReported = jor (getProp record ''@_DateReported'') (getProp record ''@_DateFiled'')
      in
      case dateIsBefore h dateReported (sevenYearsAgo h) of
        Inl e \<Rightarrow> Inl e
      | Inr reportedBefore \<Rightarrow> Inr (
        (if reportedBefore then [outdatedRecordViolation] else []) @
        (if \<not> truthy (getProp record ''@_ComplianceConditionCode'')
         then [missingConditionCodeViolation] else [])))"

definition inquiryChecks ::
  "js_host \<Rightarrow> item \<Rightarrow> scan_error + ValidatedViolation list" where
  "inquiryChecks h inquiry =
     (case dateIsBefore h (getProp inquiry ''@_DateOfInquiry'') (twoYearsAgo h) of
        Inl e \<Rightarrow> Inl e
      | Inr inquiredBefore \<Rightarrow> Inr (
        (if inquiredBefore then [outdatedInquiryViolation] else []) @
        (if \<not> truthy (getProp inquiry ''@_InquiryPurpose'')
         then [missingPurposeViolation] else [])))"

subsection \<open>Suggestions, deduplication and ordering\<close>

text \<open>\<^verbatim>\<open>generateValidatedSuggestions\<close>: the first keyword that the violation text contains
  decides; a text with none of them contributes nothing.\<close>

definition suggestionFor :: "string \<Rightarrow> string list" where
  "suggestionFor v =
     (if str_includes v ''Date of First Delinquency'' then
        [''Apply CRC Furnisher Framework: Request verification of the Date of First Delinquency and supporting documentation for the reported delinquency period.'']
      else if str_includes v ''Account Status inconsistent'' then
        [''Use CRC Advanced Strategy: Dispute the account status code and request alignment with the actual payment history and account standing.'']
      else if str_includes v ''Outdated'' then
        [''Implement CRC Basic Disputing: Request removal of outdated information that exceeds the legal reporting period under FCRA guidelines.'']
      else if str_includes v ''Bankruptcy discharge'' then
        [''Apply CRC Advanced Letters: Dispute the positive balance and request zero balance reflecting the bankruptcy discharge status.'']
      else if str_includes v ''Duplicate'' then
        [''Use CRC Warning Strategy: Request removal of duplicate account entries and consolidation of accurate account information.'']
      else if str_includes v ''Misrepresenting the amount'' then
        [(''Apply CRC Debt Validation: Dispute the inflated balance amount and request verification of the original debt amount under FDCPA '' @ [CHR 0xC2, CHR 0xA7] @ '' 809.'')]
      else if str_includes v ''Collection'' then
        [''Implement CRC Collection Strategy: Demand debt validation under FDCPA, then apply estoppel by silence if no response within 30 days.'']
      else if str_includes v ''Charge-off'' then
        [''Use CRC Charge-off Strategy: Challenge verification methods and apply maximum pressure to both bureau and furnisher.'']
      else [])"

definition generateValidatedSuggestions :: "ValidatedViolation list \<Rightarrow> string list" where
  "generateValidatedSuggestions vs = concat (map (\<lambda>v. suggestionFor (violation v)) vs)"

text \<open>\<^verbatim>\<open>xs.findIndex(p)\<close>: the index of the first element that satisfies \<open>p\<close>, -1 if none\<close>

fun findIndexFrom :: "('a \<Rightarrow> bool) \<Rightarrow> nat \<Rightarrow> 'a list \<Rightarrow> int" where
  "findIndexFrom p i [] = - 1"
| "findIndexFrom p i (x # xs) = (if p x then int i else findIndexFrom p (Suc i) xs)"

definition findIndex :: "('a \<Rightarrow> bool) \<Rightarrow> 'a list \<Rightarrow> int" where
  "findIndex p xs = findIndexFrom p 0 xs"

text \<open>\<^verbatim>\<open>xs.filter((x, index, self) => p(x, index, self))\<close>\<close>

definition filterIndexed :: "('a \<Rightarrow> nat \<Rightarrow> 'a list \<Rightarrow> bool) \<Rightarrow> 'a list \<Rightarrow> 'a list" where
  "filterIndexed p xs = map fst (filter (\<lambda>(x, i). p x i xs) (zip xs [0..<length xs]))"

text \<open>The duplicate filter of \<^verbatim>\<open>removeDuplicatesAndSort\<close> and \<^verbatim>\<open>removeDuplicateSuggestions\<close>,
  on the text \<open>key x\<close> of an element: an element stays when its index is the first index
  whose trimmed text equals its own trimmed text.\<close>

definition uniqueBy :: "('a \<Rightarrow> string) \<Rightarrow> 'a list \<Rightarrow> 'a list" where
  "uniqueBy key xs =
     filterIndexed (\<lambda>x index self. int index = findIndex (\<lambda>y. trim (key y) = trim (key x)) self) xs"

text \<open>The comparator both sort calls pass, on the two texts\<close>

definition categoryCompare :: "string \<Rightarrow> string \<Rightarrow> int" where
  "categoryCompare a b =
     (if str_includes a ''Metro 2'' \<and> \<not> str_includes b ''Metro 2'' then - 1
      else if \<not> str_includes a ''Metro 2'' \<and> str_includes b ''Metro 2'' then 1
      else if str_includes a ''FCRA'' \<and> \<not> str_includes b ''FCRA'' then - 1
      else if \<not> str_includes a ''FCRA'' \<and> str_includes b ''FCRA'' then 1
      else if str_includes a ''FDCPA'' \<and> \<not> str_includes b ''FDCPA'' then - 1
      else if \<not> str_includes a ''FDCPA'' \<and> str_includes b ''FDCPA'' then 1
      else 0)"

text \<open>
  \<^verbatim>\<open>Array.prototype.sort(cmp)\<close> is a stable sort: elements that compare equal keep their
  order. It is modelled as the stable insertion sort; for a comparator that orders the
  elements consistently (as \<^const>\<open>categoryCompare\<close> does) every stable sort returns the
  same list.
\<close>

fun insertSorted :: "('a \<Rightarrow> 'a \<Rightarrow> int) \<Rightarrow> 'a \<Rightarrow> 'a list \<Rightarrow> 'a list" where
  "insertSorted cmp x [] = [x]"
| "insertSorted cmp x (y # ys) =
     (if cmp x y \<le> 0 then x # y # ys else y # insertSorted cmp x ys)"

definition jsSort :: "('a \<Rightarrow> 'a \<Rightarrow> int) \<Rightarrow> 'a list \<Rightarrow> 'a list" where
  "jsSort cmp xs = foldr (insertSorted cmp) xs []"

definition removeDuplicatesAndSort :: "ValidatedViolation list \<Rightarrow> ValidatedViolation list" where
  "removeDuplicatesAndSort vs =
     jsSort (\<lambda>a b. categoryCompare (violation a) (violation b)) (uniqueBy violation vs)"

definition removeDuplicateSuggestions :: "string list \<Rightarrow> string list" where
  "removeDuplicateSuggestions ss = jsSort categoryCompare (uniqueBy (\<lambda>s. s) ss)"

definition formatValidationResult :: "ValidatedViolation list \<Rightarrow> ComplianceValidationResult" where
  "formatValidationResult vs =
     (let sortedViolations = removeDuplicatesAndSort vs;
          hasViolations = (length sortedViolations > 0);
          suggestions = (if hasViolations then generateValidatedSuggestions sortedViolations else []);
          sortedSuggestions = removeDuplicateSuggestions suggestions
      in \<lparr>violations = sortedViolations,
          suggestions = sortedSuggestions,
          hasViolations = hasViolations,
          noViolationMessage = (if hasViolations then None else Some NO_VIOLATION_MESSAGE)\<rparr>)"

definition validatePublicRecord ::
  "js_host \<Rightarrow> item \<Rightarrow> scan_error + ComplianceValidationResult" where
  "validatePublicRecord h record =
     (case publicRecordChecks h record of
        Inl e \<Rightarrow> Inl e
      | Inr vs \<Rightarrow> Inr (formatValidationResult vs))"

definition validateInquiry ::
  "js_host \<Rightarrow> item \<Rightarrow> scan_error + ComplianceValidationResult" where
  "validateInquiry h inquiry =
     (case inquiryChecks h inquiry of
        Inl e \<Rightarrow> Inl e
      | Inr vs \<Rightarrow> Inr (formatValidationResult vs))"

definition validateAccount ::
  "js_host \<Rightarrow> item \<Rightarrow> scan_error + ComplianceValidationResult" where
  "validateAccount h account =
     (case validateMetro2Violations h account of
        Inl e \<Rightarrow> Inl e
      | Inr metro2Violations \<Rightarrow>
      (case validateFCRAViolations h account of
        Inl e \<Rightarrow> Inl e
      | Inr fcraViolations \<Rightarrow>
      (case validateFDCPAViolations h account of
        Inl e \<Rightarrow> Inl e
      | Inr fdcpaViolations \<Rightarrow>
          Inr (formatValidationResult (metro2Violations @ fcraViolations @ fdcpaViolations)))))"

section \<open>Scan orchestration (route handlers)\<close>

definition MAX_INPUT_TOKENS :: nat where
  "MAX_INPUT_TOKENS = 100000"

definition TOKENS_PER_ACCOUNT_LIMIT :: nat where
  "TOKENS_PER_ACCOUNT_LIMIT = 1000"

definition MAX_CONCURRENT_REQUESTS :: nat where
  "MAX_CONCURRENT_REQUESTS = 5"

text \<open>\<^verbatim>\<open>Math.ceil(text.length / 4)\<close>\<close>

definition countTokens :: "string \<Rightarrow> nat" where
  "countTokens text = (jsLength text + 3) div 4"

text \<open>The request body: the three pre-filtered arrays, and the array
  \<^verbatim>\<open>CREDIT_RESPONSE.PUBLIC_RECORD\<close> (empty when absent). The arrays hold objects.\<close>

record credit_data =
  CREDIT_LIABILITY :: "item list"
  PUBLIC_RECORD :: "item list"
  INQUIRY :: "item list"
  CREDIT_RESPONSE_PUBLIC_RECORD :: "item list"

text \<open>\<^verbatim>\<open>xs.forEach((x, index) => ...)\<close> and \<^verbatim>\<open>xs.map((x, index) => ...)\<close> see each element with
  its index.\<close>

definition indexed :: "'a list \<Rightarrow> ('a \<times> nat) list" where
  "indexed xs = zip xs [0..<length xs]"

text \<open>A loop that stops at the first element whose step throws\<close>

fun mapE :: "('a \<Rightarrow> 'e + 'b) \<Rightarrow> 'a list \<Rightarrow> 'e + 'b list" where
  "mapE f [] = Inr []"
| "mapE f (x # xs) =
     (case f x of
        Inl e \<Rightarrow> Inl e
      | Inr y \<Rightarrow> (case mapE f xs of Inl e \<Rightarrow> Inl e | Inr ys \<Rightarrow> Inr (y # ys)))"

fun foldE :: "('s \<Rightarrow> 'a \<Rightarrow> 'e + 's) \<Rightarrow> 's \<Rightarrow> 'a list \<Rightarrow> 'e + 's" where
  "foldE f s [] = Inr s"
| "foldE f s (x # xs) = (case f s x of Inl e \<Rightarrow> Inl e | Inr s' \<Rightarrow> foldE f s' xs)"

subsection \<open>Objects used as dictionaries\<close>

text \<open>
  The own properties of an object created as \<^verbatim>\<open>{}\<close>, in the order \<^verbatim>\<open>Object.keys\<close> lists
  them: first the keys that are array indices (the decimal text of a number below
  \<open>2 ^ 32 - 1\<close>) by ascending number, then every other key in the order of creation.
\<close>

definition arrayIndex :: "string \<Rightarrow> int option" where
  "arrayIndex k =
     (if k \<noteq> [] \<and> list_all (isDigitIn 10) k \<and> (k = ''0'' \<or> hd k \<noteq> CHR ''0'') \<and>
         digitsValue 10 k < 4294967295
      then Some (digitsValue 10 k) else None)"

fun insertIndexKey :: "int \<Rightarrow> string \<Rightarrow> 'v \<Rightarrow> (string \<times> 'v) list \<Rightarrow> (string \<times> 'v) list" where
  "insertIndexKey n k v [] = [(k, v)]"
| "insertIndexKey n k v ((k', v') # m) =
     (case arrayIndex k' of
        Some n' \<Rightarrow> (if n' < n then (k', v') # insertIndexKey n k v m
                    else (k, v) # (k', v') # m)
      | None \<Rightarrow> (k, v) # (k', v') # m)"

text \<open>
  \<^verbatim>\<open>obj[k] = v\<close>: the value of a key that is present is replaced where it stands, a new
  key is created. The key \<^verbatim>\<open>__proto__\<close> creates no property: the assignment reaches the
  setter inherited from \<^verbatim>\<open>Object.prototype\<close>, which makes the array \<open>v\<close> the prototype
  of the object.
\<close>

definition assign :: "string \<Rightarrow> 'v \<Rightarrow> (string \<times> 'v) list \<Rightarrow> (string \<times> 'v) list" where
  "assign k v m =
     (if k = ''__proto__'' then m
      else if map_of m k \<noteq> None then map (\<lambda>(k', v'). if k' = k then (k', v) else (k', v')) m
      else (case arrayIndex k of
              Some n \<Rightarrow> insertIndexKey n k v m
            | None \<Rightarrow> m @ [(k, v)]))"

definition assignAll :: "(string \<times> 'v) list \<Rightarrow> (string \<times> 'v) list \<Rightarrow> (string \<times> 'v) list" where
  "assignAll m es = foldl (\<lambda>m (k, v). assign k v m) m es"

text \<open>
  An object whose inherited properties are read as well: its own properties, and the
  array that an assignment to \<^verbatim>\<open>__proto__\<close> has made its prototype, if any.
\<close>

record js_object =
  ownProps :: "(string \<times> string list) list"
  arrayProto :: "string list option"

definition emptyObject :: js_object where
  "emptyObject = \<lparr>ownProps = [], arrayProto = None\<rparr>"

definition setProperty :: "string \<Rightarrow> string list \<Rightarrow> js_object \<Rightarrow> js_object" where
  "setProperty k v obj =
     \<lparr>ownProps = assign k v (ownProps obj),
      arrayProto = (if k = ''__proto__'' then Some v else arrayProto obj)\<rparr>"

text \<open>
  \<^verbatim>\<open>obj[k]\<close> is truthy: an own property holds an array, which is truthy; otherwise the
  name is looked up along the prototypes. A prototype array has its elements (a string
  is truthy unless empty) and its \<^verbatim>\<open>length\<close>, and \<^verbatim>\<open>Array.prototype\<close> behind it.
\<close>

definition truthyProperty :: "js_host \<Rightarrow> js_object \<Rightarrow> string \<Rightarrow> bool" where
  "truthyProperty h obj k =
     (if map_of (ownProps obj) k \<noteq> None then True
      else
        (case arrayProto obj of
           None \<Rightarrow> objectPrototypeTruthy h k
         | Some arr \<Rightarrow>
             if k = ''length'' then arr \<noteq> []
             else (case arrayIndex k of
                     Some i \<Rightarrow> (if i < int (length arr) then arr ! nat i \<noteq> []
                                 else arrayPrototypeTruthy h k)
                   | None \<Rightarrow> arrayPrototypeTruthy h k)))"

subsection \<open>Item identifiers\<close>

text \<open>The identifier is the first truthy candidate field, else a placeholder built from
  the index. Printed in a log line or used as a property key it is converted with
  \<^const>\<open>toStr\<close>.\<close>

definition staticAccountId :: "item \<Rightarrow> nat \<Rightarrow> jsval" where
  "staticAccountId account index =
     jorStr (getProp account ''@CreditLiabilityID'')
            (''TRADE'' @ padStart3 (showNat (index + 1)))"

definition staticRecordId :: "item \<Rightarrow> nat \<Rightarrow> jsval" where
  "staticRecordId record index =
     jorStr (jor (getProp record ''@RecordKey'') (getProp record ''@CreditLiabilityID''))
            (''PUBLIC-RECORD-'' @ padStart3 (showNat (index + 1)))"

definition staticInquiryId :: "item \<Rightarrow> nat \<Rightarrow> jsval" where
  "staticInquiryId inquiry index =
     jorStr (jor (getProp inquiry ''@InquiryKey'') (getProp inquiry ''@_InquiryKey''))
            (''INQUIRY-'' @ padStart3 (showNat (index + 1)))"

text \<open>
  An element of \<^verbatim>\<open>allItemsToProcess\<close>: the item spread into a new object together with
  \<^verbatim>\<open>itemType\<close> and \<^verbatim>\<open>originalIndex\<close> (for an inquiry also \<^verbatim>\<open>inquiryIndex\<close>, the same
  number). The three added keys are read only through these fields. The type takes one
  of three values, so the source's last branch (\<^verbatim>\<open>ITEM-n\<close>) is never taken.
\<close>

datatype item_type = Account | PublicRecord | Inquiry

record work_item =
  itemFields :: item
  itemType :: item_type
  originalIndex :: nat

definition allItemsToProcess :: "credit_data \<Rightarrow> work_item list" where
  "allItemsToProcess creditData =
     map (\<lambda>(item, index). \<lparr>itemFields = item, itemType = Account, originalIndex = index\<rparr>)
         (indexed (CREDIT_LIABILITY creditData)) @
     map (\<lambda>(item, index). \<lparr>itemFields = item, itemType = PublicRecord, originalIndex = index\<rparr>)
         (indexed (PUBLIC_RECORD creditData)) @
     map (\<lambda>(item, index). \<lparr>itemFields = item, itemType = Inquiry, originalIndex = index\<rparr>)
         (indexed (INQUIRY creditData))"

text \<open>The identifier \<^verbatim>\<open>processItemWithAI\<close> derives; \<open>itemIndex\<close> is the position in
  \<^verbatim>\<open>allItemsToProcess\<close>.\<close>

definition aiItemId :: "work_item \<Rightarrow> nat \<Rightarrow> jsval" where
  "aiItemId w itemIndex =
     (case itemType w of
        Account \<Rightarrow>
          jorStr (getProp (itemFields w) ''@CreditLiabilityID'')
                 (''TRADE'' @ padStart3 (showNat (itemIndex + 1)))
      | PublicRecord \<Rightarrow>
          jorStr (jor (getProp (itemFields w) ''@CreditLiabilityID'')
                      (getProp (itemFields w) ''@_SubscriberCode''))
                 (''record_'' @ showNat itemIndex)
      | Inquiry \<Rightarrow>
          jorStr (getProp (itemFields w) ''@_InquiryIdentifier'')
                 (''inquiry_'' @ showNat (originalIndex w)))"

subsection \<open>Static suggestions\<close>

text \<open>
  \<^verbatim>\<open>s.toLowerCase()\<close> on the ASCII letters. The patterns searched in the lowered text are
  ASCII; the one character outside ASCII that lowers to a letter of theirs (U+0130, to
  \<^verbatim>\<open>i\<close> followed by U+0307) does not complete a match, as no pattern ends with \<^verbatim>\<open>i\<close>.
\<close>

definition toLowerCase :: "string \<Rightarrow> string" where
  "toLowerCase s =
     map (\<lambda>c. if 65 \<le> (of_char c :: nat) \<and> (of_char c :: nat) \<le> 90
               then char_of ((of_char c :: nat) + 32) else c) s"

text \<open>
  \<^verbatim>\<open>accountData.AccountType === 'Medical' || accountData.CreditorName?.toLowerCase().includes('medical')\<close>:
  the optional chain stops on \<^verbatim>\<open>null\<close>/\<^verbatim>\<open>undefined\<close> only; on a number, boolean,
  object or array the call of \<^verbatim>\<open>toLowerCase\<close> throws a TypeError.
\<close>

definition isMedical :: "item \<Rightarrow> scan_error + bool" where
  "isMedical accountData =
     (if eqStr (getProp accountData ''AccountType'') ''Medical'' then Inr True
      else case getProp accountData ''CreditorName'' of
             None \<Rightarrow> Inr False
           | Some JNull \<Rightarrow> Inr False
           | Some (JStr s) \<Rightarrow> Inr (str_includes (toLowerCase s) ''medical'')
           | Some _ \<Rightarrow> Inl TypeError)"

definition generateCRCDisputes :: "js_host \<Rightarrow> item \<Rightarrow> scan_error + string list" where
  "generateCRCDisputes h accountData =
     (case positiveAmount h (getProp accountData ''PastDueAmount'') of
        Inl e \<Rightarrow> Inl e
      | Inr pastDue \<Rightarrow>
      (case isMedical accountData of
        Inl e \<Rightarrow> Inl e
      | Inr medical \<Rightarrow> Inr (
          (if eqStr (getProp accountData ''DerogatoryDataIndicator'') ''Y'' then
             [''Apply CRC Furnisher Framework: Send Round 1 dispute letter directly to furnisher, then escalate with warning letter if verified'']
           else []) @
          (if eqStr (getProp accountData ''IsCollectionIndicator'') ''Y'' then
             [''Use CRC Advanced Strategy: Demand debt validation under FDCPA, then apply estoppel by silence if no response within 30 days'']
           else []) @
          (if eqStr (getProp accountData ''IsChargeoffIndicator'') ''Y'' then
             [''Implement CRC Charge-off Strategy: Challenge verification methods and apply maximum pressure to both bureau and furnisher'']
           else []) @
          (if pastDue then
             [''Apply CRC Late Payment Strategy: Dispute payment history accuracy and request method of verification from furnisher'']
           else []) @
          (if medical then
             [''Use CRC HIPAA Strategy: Request medical debt validation using HIPAA laws for specialized medical collection removal'']
           else []))))"

definition accountFallbackSuggestions :: "string list" where
  "accountFallbackSuggestions =
     [''Apply CRC Furnisher Framework: Send Round 1 dispute letter directly to furnisher with reason and instruction'',
      ''Use CRC Advanced Strategy: Demand debt validation under FDCPA '' @
      [CHR 0xC2, CHR 0xA7] @
      '' 809, then apply estoppel by silence if no response'',
      ''Implement CRC Maximum Pressure: Challenge verification methods and apply '' @
      ''pressure to both bureau and furnisher'']"

definition recordFallbackSuggestions :: "string list" where
  "recordFallbackSuggestions =
     [(''Verify public record authenticity under FCRA '' @ [CHR 0xC2, CHR 0xA7] @ '' 613 - request court documentation and filing verification''),
      ''Challenge reporting timeframe under FCRA '' @
      [CHR 0xC2, CHR 0xA7] @
      '' 605 - seven-year reporting limit for most public records'',
      ''Dispute record accuracy under FCRA '' @
      [CHR 0xC2, CHR 0xA7] @
      '' 623 - demand Metro 2 compliance for all public record fields'']"

definition inquiryFallbackSuggestions :: "string list" where
  "inquiryFallbackSuggestions =
     [(''Challenge inquiry authorization under FCRA '' @ [CHR 0xC2, CHR 0xA7] @ '' 604 - demand written permissible purpose documentation''),
      ''Dispute inquiry accuracy under FCRA '' @
      [CHR 0xC2, CHR 0xA7] @
      '' 623 - request Metro 2 compliance verification for inquiry fields'',
      ''Verify inquiry legitimacy under FDCPA '' @
      [CHR 0xC2, CHR 0xA7] @
      '' 807 - require proof of authorized access and business relationship'']"

text \<open>One round of each loop of \<^verbatim>\<open>generateStaticSuggestions\<close>: the key and the list
  assigned under it, or what the round throws.\<close>

fun accountSuggestionEntry ::
  "js_host \<Rightarrow> item \<times> nat \<Rightarrow> scan_error + (string \<times> string list)" where
  "accountSuggestionEntry h (account, index) =
     (case validateAccount h account of
        Inl e \<Rightarrow> Inl e
      | Inr validationResult \<Rightarrow>
      (case generateCRCDisputes h account of
        Inl e \<Rightarrow> Inl e
      | Inr crcSuggestions \<Rightarrow>
      (case toStr h (staticAccountId account index) of
        Inl e \<Rightarrow> Inl e
      | Inr accountId \<Rightarrow>
          (let allSuggestions = suggestions validationResult @ crcSuggestions
           in Inr (accountId,
                   if length allSuggestions > 0 then allSuggestions
                   else accountFallbackSuggestions)))))"

fun recordSuggestionEntry ::
  "js_host \<Rightarrow> item \<times> nat \<Rightarrow> scan_error + (string \<times> string list)" where
  "recordSuggestionEntry h (record, index) =
     (case validatePublicRecord h record of
        Inl e \<Rightarrow> Inl e
      | Inr validationResult \<Rightarrow>
      (case toStr h (staticRecordId record index) of
        Inl e \<Rightarrow> Inl e
      | Inr recordId \<Rightarrow>
          Inr (recordId,
               if length (suggestions validationResult) > 0 then suggestions validationResult
               else recordFallbackSuggestions)))"

fun inquirySuggestionEntry ::
  "js_host \<Rightarrow> item \<times> nat \<Rightarrow> scan_error + (string \<times> string list)" where
  "inquirySuggestionEntry h (inquiry, index) =
     (case validateInquiry h inquiry of
        Inl e \<Rightarrow> Inl e
      | Inr validationResult \<Rightarrow>
      (case toStr h (staticInquiryId inquiry index) of
        Inl e \<Rightarrow> Inl e
      | Inr inquiryId \<Rightarrow>
          Inr (inquiryId,
               if length (suggestions validationResult) > 0 then suggestions validationResult
               else inquiryFallbackSuggestions)))"

definition generateStaticSuggestions ::
  "js_host \<Rightarrow> credit_data \<Rightarrow> scan_error + (string \<times> string list) list" where
  "generateStaticSuggestions h creditData =
     (case mapE (accountSuggestionEntry h) (indexed (CREDIT_LIABILITY creditData)) of
        Inl e \<Rightarrow> Inl e
      | Inr accountEntries \<Rightarrow>
      (case mapE (recordSuggestionEntry h) (indexed (PUBLIC_RECORD creditData)) of
        Inl e \<Rightarrow> Inl e
      | Inr recordEntries \<Rightarrow>
      (case mapE (inquirySuggestionEntry h) (indexed (INQUIRY creditData)) of
        Inl e \<Rightarrow> Inl e
      | Inr inquiryEntries \<Rightarrow>
          Inr (assignAll [] (accountEntries @ recordEntries @ inquiryEntries)))))"

subsection \<open>The response payload\<close>

text \<open>The payload's \<^verbatim>\<open>violations\<close> and \<^verbatim>\<open>suggestions\<close> are the fields \<open>itemViolations\<close> and
  \<open>itemSuggestions\<close> here (the validation result has fields of the same names).\<close>

record token_info =
  inputTokens :: nat
  itemsAnalyzedWithAI :: nat
  itemsSkippedByTokens :: nat
  totalItemsProcessed :: nat
  fallbackUsed :: bool

record breakdown_counts =
  accounts :: nat
  publicRecords :: nat
  inquiries :: nat

record scan_payload =
  success :: bool
  totalViolations :: nat
  affectedAccounts :: nat
  itemViolations :: "(string \<times> string list) list"
  metro2Violations :: "(string \<times> string list) list"
  fcrFdcpaViolations :: "(string \<times> string list) list"
  itemSuggestions :: "(string \<times> string list) list"
  breakdown :: breakdown_counts
  message :: string
  tokenInfo :: token_info

definition completedMessage :: "nat \<Rightarrow> nat \<Rightarrow> nat \<Rightarrow> string" where
  "completedMessage a r i =
     ''AI analysis completed: Found violations across '' @ showNat a @ '' accounts, '' @
     showNat r @ '' public records, and '' @ showNat i @ '' inquiries''"

subsection \<open>Static mode\<close>

text \<open>\<^verbatim>\<open>`${v.violation} (Source: ${v.source}${v.page ? `, ${v.page}` : ''})`\<close>\<close>

definition formatViolation :: "ValidatedViolation \<Rightarrow> string" where
  "formatViolation v =
     violation v @ '' (Source: '' @ source v @
     (case page v of Some p \<Rightarrow> (if p \<noteq> [] then '', '' @ p else []) | None \<Rightarrow> []) @ '')''"

text \<open>The strings stored for one item: its formatted violations, or the one
  no-violation message (\<^verbatim>\<open>validationResult.noViolationMessage || "No Metro 2 ..."\<close>).\<close>

definition staticStrings :: "ComplianceValidationResult \<Rightarrow> string list" where
  "staticStrings validationResult =
     (if hasViolations validationResult
      then map formatViolation (violations validationResult)
      else [case noViolationMessage validationResult of
              Some m \<Rightarrow> (if m \<noteq> [] then m
                          else ''No Metro 2 / FCRA / FDCPA violation detected for this item.'')
            | None \<Rightarrow> ''No Metro 2 / FCRA / FDCPA violation detected for this item.''])"

text \<open>One round of each loop of \<^verbatim>\<open>generateStaticViolations\<close>: the identifier is printed,
  the item validated, and the strings assigned under the identifier.\<close>

fun staticAccountEntry ::
  "js_host \<Rightarrow> item \<times> nat \<Rightarrow> scan_error + (string \<times> string list)" where
  "staticAccountEntry h (account, index) =
     (case toStr h (staticAccountId account index) of
        Inl e \<Rightarrow> Inl e
      | Inr accountId \<Rightarrow>
      (case validateAccount h account of
        Inl e \<Rightarrow> Inl e
      | Inr validationResult \<Rightarrow> Inr (accountId, staticStrings validationResult)))"

fun staticRecordEntry ::
  "js_host \<Rightarrow> item \<times> nat \<Rightarrow> scan_error + (string \<times> string list)" where
  "staticRecordEntry h (record, index) =
     (case toStr h (staticRecordId record index) of
        Inl e \<Rightarrow> Inl e
      | Inr recordId \<Rightarrow>
      (case validatePublicRecord h record of
        Inl e \<Rightarrow> Inl e
      | Inr validationResult \<Rightarrow> Inr (recordId, staticStrings validationResult)))"

fun staticInquiryEntry ::
  "js_host \<Rightarrow> item \<times> nat \<Rightarrow> scan_error + (string \<times> string list)" where
  "staticInquiryEntry h (inquiry, index) =
     (case toStr h (staticInquiryId inquiry index) of
        Inl e \<Rightarrow> Inl e
      | Inr inquiryId \<Rightarrow>
      (case validateInquiry h inquiry of
        Inl e \<Rightarrow> Inl e
      | Inr validationResult \<Rightarrow> Inr (inquiryId, staticStrings validationResult)))"

text \<open>The assignments \<^verbatim>\<open>violations[id] = ...\<close> of the three loops, in the order they run\<close>

definition staticEntries ::
  "js_host \<Rightarrow> credit_data \<Rightarrow> scan_error + (string \<times> string list) list" where
  "staticEntries h creditData =
     (case mapE (staticAccountEntry h) (indexed (CREDIT_LIABILITY creditData)) of
        Inl e \<Rightarrow> Inl e
      | Inr accountEntries \<Rightarrow>
      (case mapE (staticRecordEntry h) (indexed (PUBLIC_RECORD creditData)) of
        Inl e \<Rightarrow> Inl e
      | Inr recordEntries \<Rightarrow>
      (case mapE (staticInquiryEntry h) (indexed (INQUIRY creditData)) of
        Inl e \<Rightarrow> Inl e
      | Inr inquiryEntries \<Rightarrow> Inr (accountEntries @ recordEntries @ inquiryEntries))))"

text \<open>\<^verbatim>\<open>[...new Set(xs)]\<close>: the first occurrence of every string, in order\<close>

definition setDedup :: "string list \<Rightarrow> string list" where
  "setDedup xs = foldl (\<lambda>acc x. if x \<in> set acc then acc else acc @ [x]) [] xs"

definition sortedViolations :: "string list \<Rightarrow> string list" where
  "sortedViolations vs = jsSort categoryCompare (setDedup vs)"

definition actualItemViolations :: "string list \<Rightarrow> string list" where
  "actualItemViolations vs =
     filter (\<lambda>v. v \<noteq> ''No Metro 2 / FCRA / FDCPA violation detected for this item.'') vs"

text \<open>\<^verbatim>\<open>generateStaticViolations\<close>. The second loop goes through \<^verbatim>\<open>Object.keys(violations)\<close>
  and fills three new objects under the same keys, in the same order.\<close>

definition generateStaticViolations :: "js_host \<Rightarrow> credit_data \<Rightarrow> scan_error + scan_payload" where
  "generateStaticViolations h creditData =
     (let negativeAccounts = CREDIT_LIABILITY creditData;
          publicRecords = PUBLIC_RECORD creditData;
          recentInquiries = INQUIRY creditData
      in
      case staticEntries h creditData of
        Inl e \<Rightarrow> Inl e
      | Inr entries \<Rightarrow>
         (let violationsById = assignAll [] entries;
              processedViolations = map (\<lambda>(itemId, vs). (itemId, sortedViolations vs)) violationsById;
              metro2 = map (\<lambda>(itemId, vs). (itemId,
                          filter (\<lambda>v. str_includes v ''Metro 2'') (actualItemViolations vs)))
                        processedViolations;
              fcrFdcpa = map (\<lambda>(itemId, vs). (itemId,
                          filter (\<lambda>v. str_includes v ''FCRA'' \<or> str_includes v ''FDCPA'')
                                 (actualItemViolations vs)))
                        processedViolations;
              actualViolations = actualItemViolations (concat (map snd processedViolations))
          in case generateStaticSuggestions h creditData of
               Inl e \<Rightarrow> Inl e
             | Inr suggestionsById \<Rightarrow> Inr
                \<lparr>success = True,
                 totalViolations = length actualViolations,
                 affectedAccounts = length violationsById,
                 itemViolations = processedViolations,
                 metro2Violations = metro2,
                 fcrFdcpaViolations = fcrFdcpa,
                 itemSuggestions = suggestionsById,
                 breakdown = \<lparr>accounts = length negativeAccounts,
                              publicRecords = length publicRecords,
                              inquiries = length recentInquiries\<rparr>,
                 message = completedMessage (length negativeAccounts) (length publicRecords)
                             (length recentInquiries),
                 tokenInfo = \<lparr>inputTokens = 0, itemsAnalyzedWithAI = 0, itemsSkippedByTokens = 0,
                              totalItemsProcessed = length violationsById, fallbackUsed = True\<rparr>\<rparr>))"

subsection \<open>Assisted mode\<close>

text \<open>
  What one call of the external completion service gives: it throws, or it returns
  the content of the first choice (absent when there is none).
\<close>

datatype completion = CallFailed | Content "string option"

text \<open>
  The environment of a scan:
  \<^item> \<open>hasApiKey\<close>: \<^verbatim>\<open>process.env.OPENAI_API_KEY\<close> is set;
  \<^item> \<open>stringify\<close>, \<open>stringifyData\<close>: \<^verbatim>\<open>JSON.stringify\<close> of an item summary and of the request
    body;
  \<^item> \<open>complete i t text\<close>: the completion call made for the item at position \<open>i\<close>, with the
    system prompt of item type \<open>t\<close> and the user message \<open>text\<close>.
\<close>

record ai_env =
  hasApiKey :: bool
  stringify :: "item \<Rightarrow> string"
  stringifyData :: "credit_data \<Rightarrow> string"
  complete :: "nat \<Rightarrow> item_type \<Rightarrow> string \<Rightarrow> completion"

definition itemSummary :: "work_item \<Rightarrow> jsval \<Rightarrow> item" where
  "itemSummary w itemId =
     (let item = itemFields w in
      case itemType w of
        Account \<Rightarrow>
          [(''id'', itemId),
           (''creditor'', jorStr (optProp (getProp item ''_CREDITOR'') ''@_Name'') ''Unknown''),
           (''accountType'', jorStr (getProp item ''@_AccountType'') ''Unknown''),
           (''balance'', jorStr (getProp item ''@_CurrentBalance'') ''0''),
           (''status'', jorStr (jor (getProp item ''@_AccountStatus'')
                                    (getProp item ''@_AccountStatusType'')) ''Unknown''),
           (''dateOpened'', jorStr (getProp item ''@_DateOpened'') ''Unknown''),
           (''dateReported'', jorStr (getProp item ''@_DateReported'') ''Unknown''),
           (''dateClosed'', jorStr (getProp item ''@_DateClosed'') ''Unknown''),
           (''derogatoryIndicator'', jorStr (getProp item ''@_DerogatoryDataIndicator'') ''N''),
           (''dateFirstDelinquency'', jorStr (getProp item ''@_DateFirstDelinquency'') ''Unknown''),
           (''paymentHistory'', jorStr (getProp item ''@_PaymentHistory'') ''Unknown'')]
      | PublicRecord \<Rightarrow>
          [(''id'', itemId),
           (''type'', jorStr (jor (getProp item ''@_PublicRecordType'')
                                  (getProp item ''@publicRecordType'')) ''Unknown''),
           (''status'', jorStr (jor (getProp item ''@_PublicRecordStatus'')
                                    (getProp item ''status'')) ''Unknown''),
           (''amount'', jorStr (jor (getProp item ''@_PublicRecordAmount'')
                                    (getProp item ''@_Amount'')) ''0''),
           (''dateFiled'', jorStr (jor (getProp item ''@_DateFiled'')
                                       (getProp item ''filingDate'')) ''Unknown''),
           (''dateReported'', jorStr (getProp item ''@_DateReported'') ''Unknown''),
           (''court'', jorStr (jor (getProp item ''@_Court'')
                                   (getProp item ''@courtName'')) ''Unknown'')]
      | Inquiry \<Rightarrow>
          [(''id'', itemId),
           (''subscriberName'', jorStr (getProp item ''@_SubscriberName'') ''Unknown''),
           (''dateReported'', jorStr (jor (getProp item ''@_DateReported'')
                                          (getProp item ''@_Date'')) ''Unknown''),
           (''inquiryType'', jorStr (jor (getProp item ''@_InquiryType'')
                                         (getProp item ''@_Type'')) ''Unknown''),
           (''purpose'', jorStr (getProp item ''@_InquiryPurposeType'') ''Unknown'')])"

text \<open>\<^verbatim>\<open>s.split('\n')\<close>\<close>

fun splitLines :: "string \<Rightarrow> string list" where
  "splitLines [] = [[]]"
| "splitLines (c # cs) =
     (if c = CHR 0x0A then [] # splitLines cs
      else (case splitLines cs of l # ls \<Rightarrow> (c # l) # ls | [] \<Rightarrow> [[c]]))"

text \<open>\<^verbatim>\<open>line.replace('- ', r)\<close> on a line that starts with \<^verbatim>\<open>'- '\<close>: the first occurrence is
  the prefix.\<close>

definition replaceDash :: "string \<Rightarrow> string \<Rightarrow> string" where
  "replaceDash r line = r @ drop 2 line"

definition convertLine :: "string \<Rightarrow> string" where
  "convertLine line =
     (if str_includes line (''[FCRA '' @ [CHR 0xC2, CHR 0xA7]) \<and> \<not> startsWith line ''- FCRA Violation:''
        then replaceDash ''- FCRA Violation: '' line
      else if str_includes line ''[Field '' \<and> \<not> startsWith line ''- Metro 2 Violation:''
        then replaceDash ''- Metro 2 Violation: '' line
      else if str_includes line (''[FDCPA '' @ [CHR 0xC2, CHR 0xA7]) \<and> \<not> startsWith line ''- FDCPA Violation:''
        then replaceDash ''- FDCPA Violation: '' line
      else line)"

definition isNotEmpty :: "string \<Rightarrow> bool" where
  "isNotEmpty line =
     (let l = toLowerCase line in
      \<not> str_includes l ''none identified'' \<and>
      \<not> str_includes l ''no violations identified'' \<and>
      \<not> str_includes l ''none apparent'' \<and>
      \<not> str_includes l ''not applicable'' \<and>
      \<not> str_includes l ''n/a'' \<and>
      \<not> str_includes l ''no violation'' \<and>
      \<not> str_includes l ''none found'')"

definition validViolations :: "string \<Rightarrow> string list" where
  "validViolations response =
     (let lines = filter (\<lambda>line. jsLength line > 0) (map trim (splitLines response))
      in filter (\<lambda>line. isNotEmpty line \<and> jsLength line > 30)
           (map convertLine
              (filter (\<lambda>line. startsWith line ''- '' \<and> jsLength line > 10) lines)))"

record ai_counters =
  accountsAnalyzedWithAI :: nat
  accountsSkippedByTokens :: nat

text \<open>
  \<^verbatim>\<open>processItemWithAI\<close>: the result for one item and the counters after it. The
  identifier is printed in a log line on every path: before the \<^verbatim>\<open>try\<close> for an inquiry,
  and inside it for the other items, where the \<^verbatim>\<open>catch\<close> clause prints it again. An
  identifier that cannot be converted to a string therefore makes the call throw.
  Everything else is inside the \<^verbatim>\<open>try\<close>; a failed completion call is caught and gives
  no violations.
\<close>

definition processItemWithAI ::
  "js_host \<Rightarrow> ai_env \<Rightarrow> ai_counters \<Rightarrow> work_item \<Rightarrow> nat \<Rightarrow>
   scan_error + ((jsval \<times> string list) \<times> ai_counters)" where
  "processItemWithAI h env c w itemIndex =
     (let itemId = aiItemId w itemIndex;
          itemText = stringify env (itemSummary w itemId);
          itemTokens = countTokens itemText
      in case toStr h itemId of
           Inl e \<Rightarrow> Inl e
         | Inr printedId \<Rightarrow>
            if itemTokens > TOKENS_PER_ACCOUNT_LIMIT
            then Inr ((itemId, []), c\<lparr>accountsSkippedByTokens := accountsSkippedByTokens c + 1\<rparr>)
            else (case complete env itemIndex (itemType w) itemText of
                    CallFailed \<Rightarrow> Inr ((itemId, []), c)
                  | Content None \<Rightarrow> Inr ((itemId, []), c)
                  | Content (Some response) \<Rightarrow>
                      (if response \<noteq> []
                       then Inr ((itemId, validViolations response),
                                 c\<lparr>accountsAnalyzedWithAI := accountsAnalyzedWithAI c + 1\<rparr>)
                       else Inr ((itemId, []), c))))"

text \<open>One batch: \<^verbatim>\<open>Promise.all(batch.map((item, batchIndex) => processItemWithAI(item, i + batchIndex)))\<close>.
  The results keep the order of the batch; the tasks share only the two counters, which
  each task increments at most once, so the tasks are run here one after the other. A
  task that throws makes the batch throw.\<close>

fun processBatch ::
  "js_host \<Rightarrow> ai_env \<Rightarrow> ai_counters \<Rightarrow> work_item list \<Rightarrow> nat \<Rightarrow>
   scan_error + ((jsval \<times> string list) list \<times> ai_counters)" where
  "processBatch h env c [] i = Inr ([], c)"
| "processBatch h env c (w # ws) i =
     (case processItemWithAI h env c w i of
        Inl e \<Rightarrow> Inl e
      | Inr (r, c1) \<Rightarrow>
          (case processBatch h env c1 ws (i + 1) of
             Inl e \<Rightarrow> Inl e
           | Inr (rs, c2) \<Rightarrow> Inr (r # rs, c2)))"

text \<open>\<^verbatim>\<open>processInBatches\<close>: the loop \<^verbatim>\<open>for (let i = 0; i < items.length; i += batchSize)\<close>,
  from position \<open>i\<close> with the results and counters so far. It does not end when
  \<open>batchSize\<close> is 0; that is the value \<^term>\<open>None\<close>.\<close>

partial_function (option) processInBatches ::
  "js_host \<Rightarrow> ai_env \<Rightarrow> work_item list \<Rightarrow> nat \<Rightarrow> nat \<Rightarrow> (jsval \<times> string list) list \<Rightarrow>
   ai_counters \<Rightarrow> (scan_error + ((jsval \<times> string list) list \<times> ai_counters)) option" where
  "processInBatches h env items batchSize i results c =
     (if i < length items
      then (case processBatch h env c (take batchSize (drop i items)) i of
              Inl e \<Rightarrow> Some (Inl e)
            | Inr (batchResults, c') \<Rightarrow>
                processInBatches h env items batchSize (i + batchSize) (results @ batchResults) c')
      else Some (Inr (results, c)))"

definition getStaticPublicRecordViolations :: "nat \<Rightarrow> string list" where
  "getStaticPublicRecordViolations index =
     [[''Metro 2 Violation: Public record information is outdated or inaccurate [Field 13: Public Record Status] - Status inconsistent with court records'',
       ''FCRA Violation: Outdated public record - records older than 7 years still '' @
       ''reporting negatively violate FCRA '' @
       [CHR 0xC2, CHR 0xA7] @
       '' 605(a)(4)'',
       ''FDCPA Violation: False representations regarding public record status - '' @
       ''violates FDCPA '' @
       [CHR 0xC2, CHR 0xA7] @
       '' 807(2)(A)''],
      [''Metro 2 Violation: Missing compliance condition code for public record [Field 33: Compliance Condition Code] - Required for all public records'',
       ''FCRA Violation: Mixed credit information - public record information of '' @
       ''another person appears on report violates FCRA '' @
       [CHR 0xC2, CHR 0xA7] @
       '' 623(a)(1)(C)'',
       ''FDCPA Violation: Harassment through improper public record collection '' @
       ''activities - violates FDCPA '' @
       [CHR 0xC2, CHR 0xA7] @
       '' 806(5)''],
      [''Metro 2 Violation: Incorrect public record status code reporting [Field 13: Public Record Status] - Status code does not match court disposition'',
       ''FCRA Violation: Inaccurate reporting of public record discharge status - '' @
       ''discharged debts showing positive balance violate FCRA '' @
       [CHR 0xC2, CHR 0xA7] @
       '' 605(a)(1)'',
       ''FDCPA Violation: Threatening to take legal action regarding public record that '' @
       ''is not intended - violates FDCPA '' @
       [CHR 0xC2, CHR 0xA7] @
       '' 807(5)''],
      [''Metro 2 Violation: Public record balance amount inconsistent with court records [Field 06: Balance Amount] - Amount exceeds court judgment'',
       ''FCRA Violation: Bankruptcy discharge inaccuracies - discharged accounts '' @
       ''showing outstanding balance violate FCRA '' @
       [CHR 0xC2, CHR 0xA7] @
       '' 605(a)(1)'',
       ''FDCPA Violation: Misrepresenting the amount owed on public record - violates '' @
       ''FDCPA '' @
       [CHR 0xC2, CHR 0xA7] @
       '' 807(2)(A)'']]
     ! (index mod 4)"

text \<open>\<^verbatim>\<open>violations[result.itemId] = result.violations\<close>\<close>

fun storeResult ::
  "js_host \<Rightarrow> js_object \<Rightarrow> jsval \<times> string list \<Rightarrow> scan_error + js_object" where
  "storeResult h violationsById (itemId, vs) =
     (case toStr h itemId of
        Inl e \<Rightarrow> Inl e
      | Inr key \<Rightarrow> Inr (setProperty key vs violationsById))"

text \<open>The loop over \<^verbatim>\<open>CREDIT_RESPONSE.PUBLIC_RECORD\<close>: a record under whose key
  \<^verbatim>\<open>violations[recordId]\<close> is not truthy gets the static violations of its index.\<close>

fun addRemainingRecord ::
  "js_host \<Rightarrow> js_object \<Rightarrow> item \<times> nat \<Rightarrow> scan_error + js_object" where
  "addRemainingRecord h violationsById (record, index) =
     (case toStr h (jorStr (getProp record ''@_AccountIdentifier'')
                      (''PUBLIC-RECORD-'' @ padStart3 (showNat (index + 1)))) of
        Inl e \<Rightarrow> Inl e
      | Inr recordId \<Rightarrow>
          if \<not> truthyProperty h violationsById recordId
          then Inr (setProperty recordId (getStaticPublicRecordViolations index) violationsById)
          else Inr violationsById)"

text \<open>What the scan has collected once every item is processed: the object
  \<^verbatim>\<open>violations\<close>.\<close>

definition collectedViolations ::
  "js_host \<Rightarrow> credit_data \<Rightarrow> (jsval \<times> string list) list \<Rightarrow> scan_error + js_object" where
  "collectedViolations h creditData results =
     (case foldE (storeResult h) emptyObject results of
        Inl e \<Rightarrow> Inl e
      | Inr violationsById \<Rightarrow>
          foldE (addRemainingRecord h) violationsById
            (indexed (CREDIT_RESPONSE_PUBLIC_RECORD creditData)))"

text \<open>\<^verbatim>\<open>performAiScan\<close>. \<^term>\<open>None\<close>: the batch loop does not end; \<^term>\<open>Some (Inl e)\<close>: the
  function throws \<open>e\<close>; \<^term>\<open>Some (Inr p)\<close>: it returns the payload \<open>p\<close>.\<close>

definition performAiScan ::
  "js_host \<Rightarrow> ai_env \<Rightarrow> credit_data \<Rightarrow> (scan_error + scan_payload) option" where
  "performAiScan h env creditData =
     (let totalInputTokens = countTokens (stringifyData env creditData)
      in if totalInputTokens > MAX_INPUT_TOKENS then Some (Inl (InputTooLarge totalInputTokens))
         else if \<not> hasApiKey env then Some (generateStaticViolations h creditData)
         else
          (case processInBatches h env (allItemsToProcess creditData) MAX_CONCURRENT_REQUESTS 0 []
                  \<lparr>accountsAnalyzedWithAI = 0, accountsSkippedByTokens = 0\<rparr> of
             None \<Rightarrow> None
           | Some (Inl e) \<Rightarrow> Some (Inl e)
           | Some (Inr (results, c)) \<Rightarrow>
              (case collectedViolations h creditData results of
                 Inl e \<Rightarrow> Some (Inl e)
               | Inr collected \<Rightarrow>
              (let violationsById = ownProps collected;
                   totalAccountsProcessed = length results;
                   accountViolations = length (filter (\<lambda>itemId. startsWith itemId ''TRADE'')
                                                 (map fst violationsById));
                   publicRecordViolations = length (filter (\<lambda>itemId. str_includes itemId ''PUBLIC-RECORD'')
                                                      (map fst violationsById));
                   inquiryViolations = length (filter (\<lambda>itemId. str_includes itemId ''INQUIRY'')
                                                 (map fst violationsById))
               in case generateStaticSuggestions h creditData of
                    Inl e \<Rightarrow> Some (Inl e)
                  | Inr suggestionsById \<Rightarrow> Some (Inr
                     \<lparr>success = True,
                      totalViolations = length (concat (map snd violationsById)),
                      affectedAccounts = length violationsById,
                      itemViolations = violationsById,
                      metro2Violations =
                        map (\<lambda>(itemId, vs). (itemId, filter (\<lambda>v. str_includes v ''Metro 2'') vs))
                            violationsById,
                      fcrFdcpaViolations =
                        map (\<lambda>(itemId, vs). (itemId,
                               filter (\<lambda>v. str_includes v ''FCRA'' \<or> str_includes v ''FDCPA'') vs))
                            violationsById,
                      itemSuggestions = suggestionsById,
                      breakdown = \<lparr>accounts = accountViolations,
                                   publicRecords = publicRecordViolations,
                                   inquiries = inquiryViolations\<rparr>,
                      message = completedMessage accountViolations publicRecordViolations
                                  inquiryViolations,
                      tokenInfo = \<lparr>inputTokens = totalInputTokens,
                                   itemsAnalyzedWithAI = accountsAnalyzedWithAI c,
                                   itemsSkippedByTokens = accountsSkippedByTokens c,
                                   totalItemsProcessed = totalAccountsProcessed,
                                   fallbackUsed = False\<rparr>\<rparr>)))))"

subsection \<open>The handler of POST /api/ai-scan\<close>

text \<open>The body of an error response; \<^verbatim>\<open>success\<close> is \<^verbatim>\<open>false\<close> in each of them.\<close>

record error_body =
  errorCode :: string
  errorMessage :: string
  errorFallbackUsed :: bool

datatype response_body = ScanResult scan_payload | ScanError error_body

record http_response =
  status :: nat
  body :: response_body

text \<open>
  The handler answers 200 with the payload, and catches what \<^verbatim>\<open>performAiScan\<close> throws:
  413 when the message holds \<^verbatim>\<open>INPUT_TOO_LARGE\<close>, 429 when it holds
  \<^verbatim>\<open>insufficient_quota\<close> (no error that reaches the handler does: a failed completion
  call is caught per item, and the message of a TypeError holds neither text), 500
  otherwise.
\<close>

definition aiScanHandler :: "js_host \<Rightarrow> ai_env \<Rightarrow> credit_data \<Rightarrow> http_response option" where
  "aiScanHandler h env creditData =
     (case performAiScan h env creditData of
        None \<Rightarrow> None
      | Some (Inr result) \<Rightarrow> Some \<lparr>status = 200, body = ScanResult result\<rparr>
      | Some (Inl (InputTooLarge n)) \<Rightarrow> Some
          \<lparr>status = 413,
           body = ScanError
             \<lparr>errorCode = ''INPUT_TOO_LARGE'',
              errorMessage = ''Credit data is too large for AI analysis. Using static violations instead.'',
              errorFallbackUsed = True\<rparr>\<rparr>
      | Some (Inl TypeError) \<Rightarrow> Some
          \<lparr>status = 500,
           body = ScanError
             \<lparr>errorCode = ''AI_SCAN_FAILED'',
              errorMessage = ''AI scan failed. Using static violations instead.'',
              errorFallbackUsed = True\<rparr>\<rparr>)"

section \<open>Auxiliary definitions for the proofs\<close>

text \<open>The texts \<^const>\<open>generateCRCViolations\<close> can return, and every record the account
  checks, the public-record checks and the inquiry checks can push.\<close>

definition crcTexts :: "string list" where
  "crcTexts =
     [crcDerogatoryText, crcChargeoffText, crcCollectionText, crcPastDueText, crcDofdText,
      crcValidationText, crcDisputedText]"

definition directCatalogue :: "ValidatedViolation list" where
  "directCatalogue =
     [missingDofdViolation, statusRatingViolation, termsDurationViolation,
      balanceLimitViolation, outdatedAccountViolation, bankruptcyViolation,
      duplicateViolation, misrepresentViolation, chargeoffActivityViolation]"

definition accountCatalogue :: "ValidatedViolation list" where
  "accountCatalogue = map crcViolation crcTexts @ directCatalogue"

definition recordCatalogue :: "ValidatedViolation list" where
  "recordCatalogue = [outdatedRecordViolation, missingConditionCodeViolation]"

definition inquiryCatalogue :: "ValidatedViolation list" where
  "inquiryCatalogue = [outdatedInquiryViolation, missingPurposeViolation]"

text \<open>The item without the property \<open>k\<close>\<close>

definition withoutKey :: "string \<Rightarrow> item \<Rightarrow> item" where
  "withoutKey k obj = filter (\<lambda>(k', v). k' \<noteq> k) obj"

text \<open>A date field that is absent (or otherwise falsy), or whose value the host's
  \<^verbatim>\<open>Date\<close> does not parse\<close>

definition noUsableDate :: "js_host \<Rightarrow> jsval option \<Rightarrow> bool" where
  "noUsableDate h v = (case v of None \<Rightarrow> True | Some d \<Rightarrow> \<not> truthy (Some d) \<or> newDate h d = None)"

text \<open>No field of the item is a value whose conversion to a string throws. No
  conversion that the validator makes of such an item throws.\<close>

definition plainItem :: "item \<Rightarrow> bool" where
  "plainItem obj = list_all (\<lambda>(k, v). \<not> throwsOnToString v) obj"


text \<open>
  A host for the worked examples. \<^verbatim>\<open>new Date(n)\<close> of a number has the time value \<open>n\<close>;
  this host parses no string as a date and no text as a positive number (the examples
  give it only texts that no host parses), and its clock stands at 2026-11-02. It
  prints a number by its decimal digits (the examples print none from \<open>10 ^ 21\<close> on),
  and its prototypes hold the members that the language standard gives them.
\<close>

definition exampleHost :: js_host where
  "exampleHost =
     \<lparr>newDate = (\<lambda>v. case v of JNum n \<Rightarrow> Some n | _ \<Rightarrow> None),
      sevenYearsAgo = 1572652800000,
      twoYearsAgo = 1730505600000,
      sixMonthsAgo = 1777680000000,
      parseFloatPositive = (\<lambda>s. False),
      numberToString = (\<lambda>n. if n < 0 then ''-'' @ showNat (nat (- n)) else showNat (nat n)),
      objectPrototypeTruthy = (\<lambda>k. k \<in> set
        [''constructor'', ''__defineGetter__'', ''__defineSetter__'', ''hasOwnProperty'',
         ''__lookupGetter__'', ''__lookupSetter__'', ''isPrototypeOf'',
         ''propertyIsEnumerable'', ''toString'', ''valueOf'', ''__proto__'',
         ''toLocaleString'']),
      arrayPrototypeTruthy = (\<lambda>k. k \<in> set
        [''constructor'', ''__defineGetter__'', ''__defineSetter__'', ''hasOwnProperty'',
         ''__lookupGetter__'', ''__lookupSetter__'', ''isPrototypeOf'',
         ''propertyIsEnumerable'', ''toString'', ''valueOf'', ''__proto__'',
         ''toLocaleString'', ''at'', ''concat'', ''copyWithin'', ''fill'', ''find'',
         ''findIndex'', ''findLast'', ''findLastIndex'', ''lastIndexOf'', ''pop'', ''push'',
         ''reverse'', ''shift'', ''unshift'', ''slice'', ''sort'', ''splice'', ''includes'',
         ''indexOf'', ''join'', ''keys'', ''entries'', ''values'', ''forEach'', ''filter'',
         ''flat'', ''flatMap'', ''map'', ''every'', ''some'', ''reduce'', ''reduceRight'',
         ''toReversed'', ''toSorted'', ''toSpliced'', ''with''])\<rparr>"

subsection \<open>The normalizer as the specification words it\<close>

text \<open>First occurrence wins: an element stays unless the trimmed text of an earlier
  element (\<open>seen\<close>) equals its own.\<close>

fun keepFirst :: "('a \<Rightarrow> string) \<Rightarrow> string list \<Rightarrow> 'a list \<Rightarrow> 'a list" where
  "keepFirst key seen [] = []"
| "keepFirst key seen (x # xs) =
     (if trim (key x) \<in> set seen then keepFirst key seen xs
      else x # keepFirst key (trim (key x) # seen) xs)"

text \<open>The order as the specification states it: a stable partition into the texts that
  contain "Metro 2", then of the rest those that contain "FCRA", then of the rest those
  that contain "FDCPA", then everything else.\<close>

definition claimedOrder :: "('a \<Rightarrow> string) \<Rightarrow> 'a list \<Rightarrow> 'a list" where
  "claimedOrder key xs =
     filter (\<lambda>x. str_includes (key x) ''Metro 2'') xs @
     filter (\<lambda>x. \<not> str_includes (key x) ''Metro 2'' \<and> str_includes (key x) ''FCRA'') xs @
     filter (\<lambda>x. \<not> str_includes (key x) ''Metro 2'' \<and> \<not> str_includes (key x) ''FCRA'' \<and>
                 str_includes (key x) ''FDCPA'') xs @
     filter (\<lambda>x. \<not> str_includes (key x) ''Metro 2'' \<and> \<not> str_includes (key x) ''FCRA'' \<and>
                 \<not> str_includes (key x) ''FDCPA'') xs"

text \<open>The elements whose text answers the three containment tests ("Metro 2", "FCRA",
  "FDCPA") with \<open>m\<close>, \<open>f\<close> and \<open>d\<close>, in their order\<close>

definition categoryGroup :: "('a \<Rightarrow> string) \<Rightarrow> bool \<Rightarrow> bool \<Rightarrow> bool \<Rightarrow> 'a list \<Rightarrow> 'a list" where
  "categoryGroup key m f d xs =
     filter (\<lambda>x. str_includes (key x) ''Metro 2'' = m \<and> str_includes (key x) ''FCRA'' = f \<and>
                 str_includes (key x) ''FDCPA'' = d) xs"

text \<open>The order of the comparator: the three tests compared one after the other, a text
  that passes a test before one that fails it.\<close>

definition categoryOrder :: "('a \<Rightarrow> string) \<Rightarrow> 'a list \<Rightarrow> 'a list" where
  "categoryOrder key xs =
     categoryGroup key True True True xs @ categoryGroup key True True False xs @
     categoryGroup key True False True xs @ categoryGroup key True False False xs @
     categoryGroup key False True True xs @ categoryGroup key False True False xs @
     categoryGroup key False False True xs @ categoryGroup key False False False xs"

text \<open>A text that contains at most one of the three category words\<close>

definition singleCategory :: "string \<Rightarrow> bool" where
  "singleCategory s =
     (\<not> (str_includes s ''Metro 2'' \<and> str_includes s ''FCRA'') \<and>
      \<not> (str_includes s ''Metro 2'' \<and> str_includes s ''FDCPA'') \<and>
      \<not> (str_includes s ''FCRA'' \<and> str_includes s ''FDCPA''))"

text \<open>The position of a text in the order of the comparator, from its three tests\<close>

definition categoryRank :: "string \<Rightarrow> nat" where
  "categoryRank s =
     (if str_includes s ''Metro 2'' then 0 else 4) +
     (if str_includes s ''FCRA'' then 0 else 2) +
     (if str_includes s ''FDCPA'' then 0 else 1)"

section \<open>Lists: duplicate removal and sorting\<close>

lemma findIndexFrom_found:
  "\<exists>z\<in>set xs. p z \<Longrightarrow> findIndexFrom p k (xs @ ys) = findIndexFrom p k xs"
  by (induction xs arbitrary: k) auto

lemma findIndexFrom_bound:
  "\<exists>z\<in>set xs. p z \<Longrightarrow> findIndexFrom p k xs < int (k + length xs) \<and> int k \<le> findIndexFrom p k xs"
proof (induction xs arbitrary: k)
  case Nil
  then show ?case by simp
next
  case (Cons x xs)
  show ?case
  proof (cases "p x")
    case True
    then show ?thesis by simp
  next
    case False
    with Cons.prems have "\<exists>z\<in>set xs. p z" by simp
    from Cons.IH [OF this, of "Suc k"] False show ?thesis by simp
  qed
qed

lemma findIndexFrom_skip:
  "\<forall>z\<in>set xs. \<not> p z \<Longrightarrow> findIndexFrom p k (xs @ ys) = findIndexFrom p (k + length xs) ys"
  by (induction xs arbitrary: k) auto

lemma uniqueBy_Nil: "uniqueBy key [] = []"
  by (simp add: uniqueBy_def filterIndexed_def)

lemma uniqueBy_snoc:
  "uniqueBy key (xs @ [x]) =
     uniqueBy key xs @ (if \<exists>y\<in>set xs. trim (key y) = trim (key x) then [] else [x])"
proof -
  let ?n = "length xs"
  let ?P = "\<lambda>self (y, i). int i = findIndex (\<lambda>z. trim (key z) = trim (key y)) self"
  have zip: "zip (xs @ [x]) [0..<length (xs @ [x])] = zip xs [0..<?n] @ [(x, ?n)]"
    by simp
  have old: "filter (?P (xs @ [x])) (zip xs [0..<?n]) = filter (?P xs) (zip xs [0..<?n])"
  proof (rule filter_cong [OF refl])
    fix e assume e: "e \<in> set (zip xs [0..<?n])"
    obtain y i where yi: "e = (y, i)" by (cases e)
    with e have "y \<in> set xs" by (auto dest: set_zip_leftD)
    then have "\<exists>z\<in>set xs. trim (key z) = trim (key y)" by blast
    from findIndexFrom_found [OF this]
    show "?P (xs @ [x]) e = ?P xs e"
      by (simp add: yi findIndex_def)
  qed
  have last: "?P (xs @ [x]) (x, ?n) = (\<not> (\<exists>y\<in>set xs. trim (key y) = trim (key x)))"
  proof (cases "\<exists>z\<in>set xs. trim (key z) = trim (key x)")
    case True
    from findIndexFrom_bound [OF True, of 0] findIndexFrom_found [OF True, of 0 "[x]"]
    have "findIndex (\<lambda>z. trim (key z) = trim (key x)) (xs @ [x]) < int ?n"
      by (simp add: findIndex_def)
    with True show ?thesis by simp
  next
    case False
    then have "\<forall>z\<in>set xs. \<not> trim (key z) = trim (key x)" by blast
    from findIndexFrom_skip [OF this, of 0 "[x]"] False
    show ?thesis by (simp add: findIndex_def)
  qed
  have "uniqueBy key (xs @ [x]) = map fst (filter (?P (xs @ [x])) (zip xs [0..<?n] @ [(x, ?n)]))"
    unfolding uniqueBy_def filterIndexed_def zip ..
  also have "\<dots> = map fst (filter (?P xs) (zip xs [0..<?n])) @ map fst (filter (?P (xs @ [x])) [(x, ?n)])"
    by (simp only: filter_append map_append old)
  also have "map fst (filter (?P (xs @ [x])) [(x, ?n)]) =
      (if \<exists>y\<in>set xs. trim (key y) = trim (key x) then [] else [x])"
    using last by (simp only: filter.simps) auto
  finally show ?thesis
    unfolding uniqueBy_def filterIndexed_def .
qed

lemma set_uniqueBy_subset: "set (uniqueBy key xs) \<subseteq> set xs"
  by (induction xs rule: rev_induct) (auto simp: uniqueBy_Nil uniqueBy_snoc)

lemma uniqueBy_keys:
  "(\<exists>y\<in>set (uniqueBy key xs). trim (key y) = t) = (\<exists>y\<in>set xs. trim (key y) = t)"
proof (induction xs rule: rev_induct)
  case Nil
  show ?case by (simp add: uniqueBy_Nil)
next
  case (snoc x xs)
  show ?case
  proof (cases "\<exists>y\<in>set xs. trim (key y) = trim (key x)")
    case True
    with snoc show ?thesis by (auto simp: uniqueBy_snoc)
  next
    case False
    with snoc show ?thesis by (auto simp: uniqueBy_snoc)
  qed
qed

lemma uniqueBy_eq_Nil: "(uniqueBy key xs = []) = (xs = [])"
proof
  assume e: "uniqueBy key xs = []"
  show "xs = []"
  proof (cases xs)
    case Nil
    then show ?thesis .
  next
    case (Cons a as)
    then have "\<exists>y\<in>set xs. trim (key y) = trim (key a)" by simp
    then have "\<exists>y\<in>set (uniqueBy key xs). trim (key y) = trim (key a)"
      by (simp only: uniqueBy_keys)
    with e show ?thesis by simp
  qed
qed (simp add: uniqueBy_Nil)

lemma uniqueBy_member:
  assumes x: "x \<in> set xs"
    and u: "\<And>y. y \<in> set xs \<Longrightarrow> trim (key y) = trim (key x) \<Longrightarrow> y = x"
  shows "x \<in> set (uniqueBy key xs)"
proof -
  from x have "\<exists>y\<in>set xs. trim (key y) = trim (key x)" by blast
  then have "\<exists>y\<in>set (uniqueBy key xs). trim (key y) = trim (key x)"
    by (simp only: uniqueBy_keys)
  then obtain y where y: "y \<in> set (uniqueBy key xs)" and eq: "trim (key y) = trim (key x)"
    by blast
  from y set_uniqueBy_subset [of key xs] have "y \<in> set xs" by (rule subsetD [rotated])
  then have "y = x" using eq by (rule u)
  with y show ?thesis by simp
qed

lemma set_insertSorted: "set (insertSorted cmp x ys) = insert x (set ys)"
  by (induction ys) auto

lemma set_jsSort: "set (jsSort cmp xs) = set xs"
  by (induction xs) (auto simp: jsSort_def set_insertSorted)

lemma length_insertSorted: "length (insertSorted cmp x ys) = Suc (length ys)"
  by (induction ys) auto

lemma length_jsSort: "length (jsSort cmp xs) = length xs"
  by (induction xs) (auto simp: jsSort_def length_insertSorted)

section \<open>What the validator returns\<close>

lemma uniqueBy_set_eq:
  assumes t: "\<And>x. x \<in> set xs \<Longrightarrow> trim (key x) = key x"
    and i: "\<And>x y. x \<in> set xs \<Longrightarrow> y \<in> set xs \<Longrightarrow> key x = key y \<Longrightarrow> x = y"
  shows "set (uniqueBy key xs) = set xs"
proof
  show "set (uniqueBy key xs) \<subseteq> set xs" by (rule set_uniqueBy_subset)
  show "set xs \<subseteq> set (uniqueBy key xs)"
  proof
    fix x assume x: "x \<in> set xs"
    show "x \<in> set (uniqueBy key xs)"
    proof (rule uniqueBy_member [OF x])
      fix y assume y: "y \<in> set xs" and e: "trim (key y) = trim (key x)"
      from e t [OF x] t [OF y] have "key y = key x" by simp
      with i [OF y x] show "y = x" by simp
    qed
  qed
qed

lemma catalogue_trim: "list_all (\<lambda>v. trim (violation v) = violation v) accountCatalogue"
  by code_simp

lemma catalogue_distinct: "distinct (map violation accountCatalogue)"
  by code_simp

lemma other_catalogues:
  "list_all (\<lambda>v. trim (violation v) = violation v) (recordCatalogue @ inquiryCatalogue)"
  "distinct (map violation recordCatalogue)" "distinct (map violation inquiryCatalogue)"
  by code_simp+

lemma set_violations_format:
  "set (violations (formatValidationResult vs)) = set (uniqueBy violation vs)"
  by (simp add: formatValidationResult_def Let_def removeDuplicatesAndSort_def set_jsSort)

lemma set_format_catalogue:
  assumes sub: "set vs \<subseteq> set cat"
    and t: "list_all (\<lambda>v. trim (violation v) = violation v) cat"
    and d: "distinct (map violation cat)"
  shows "set (violations (formatValidationResult vs)) = set vs"
proof -
  have "set (uniqueBy violation vs) = set vs"
  proof (rule uniqueBy_set_eq)
    fix x assume "x \<in> set vs"
    with sub t show "trim (violation x) = violation x" by (auto simp: list_all_iff)
  next
    fix x y assume "x \<in> set vs" "y \<in> set vs" "violation x = violation y"
    with sub d show "x = y" by (auto simp: distinct_map dest: inj_onD)
  qed
  then show ?thesis by (simp add: set_violations_format)
qed

lemma hasViolations_format: "hasViolations (formatValidationResult vs) = (vs \<noteq> [])"
proof -
  have "length (jsSort (\<lambda>a b. categoryCompare (violation a) (violation b)) (uniqueBy violation vs)) > 0
        \<longleftrightarrow> uniqueBy violation vs \<noteq> []"
    by (simp add: length_jsSort)
  then show ?thesis
    by (simp add: formatValidationResult_def Let_def removeDuplicatesAndSort_def uniqueBy_eq_Nil)
qed

lemma noViolationMessage_format:
  "noViolationMessage (formatValidationResult vs) = (if vs = [] then Some NO_VIOLATION_MESSAGE else None)"
  using hasViolations_format [of vs]
  by (simp add: formatValidationResult_def Let_def)

lemma violations_format_Nil: "violations (formatValidationResult []) = []"
  by (simp add: formatValidationResult_def Let_def removeDuplicatesAndSort_def uniqueBy_Nil jsSort_def)

subsection \<open>The results of the conversions\<close>


lemma toStr_Inr: "toStr h v = Inr s \<Longrightarrow> \<not> throwsOnToString v \<and> s = jsText h v"
  by (auto simp: toStr_def split: if_splits)

lemma plainItem_getProp:
  "plainItem a \<Longrightarrow> getProp a k = Some v \<Longrightarrow> \<not> throwsOnToString v"
  by (auto simp: plainItem_def getProp_def list_all_iff dest!: map_of_SomeD)

lemma plainItem_jorStr: "plainItem a \<Longrightarrow> \<not> throwsOnToString (jorStr (getProp a k) d)"
  by (auto simp: jorStr_def split: option.splits dest: plainItem_getProp)

lemma plainItem_jor:
  "plainItem a \<Longrightarrow> jor (getProp a k) (getProp a k') = Some v \<Longrightarrow> \<not> throwsOnToString v"
  by (auto simp: jor_def split: if_splits dest: plainItem_getProp)

lemma parseInt_plain: "\<not> throwsOnToString v \<Longrightarrow> parseInt h v = Inr (parseIntStr (jsText h v))"
  by (simp add: parseInt_def toStr_def)

lemma amountField_plain:
  "plainItem a \<Longrightarrow> amountField h a k = Inr (parseIntStr (jsText h (jorStr (getProp a k) ''0'')))"
  by (simp add: amountField_def parseInt_plain plainItem_jorStr)

lemma dateIsBefore_plain: "plainItem a \<Longrightarrow> \<exists>b. dateIsBefore h (getProp a k) c = Inr b"
  by (cases "getProp a k") (auto simp: dateIsBefore_def dateOf_def dest: plainItem_getProp)

lemma dateIsBefore_jor_plain:
  "plainItem a \<Longrightarrow> \<exists>b. dateIsBefore h (jor (getProp a k) (getProp a k')) c = Inr b"
  by (cases "jor (getProp a k) (getProp a k')")
     (auto simp: dateIsBefore_def dateOf_def dest: plainItem_jor)

lemma dateIsAfter_plain: "plainItem a \<Longrightarrow> \<exists>b. dateIsAfter h (getProp a k) c = Inr b"
  by (cases "getProp a k") (auto simp: dateIsAfter_def dateOf_def dest: plainItem_getProp)

lemma positiveAmount_plain: "plainItem a \<Longrightarrow> \<exists>b. positiveAmount h (getProp a k) = Inr b"
  by (cases "getProp a k") (auto simp: positiveAmount_def toStr_def dest: plainItem_getProp)

lemma crc_plain:
  assumes "plainItem a"
  shows "\<exists>crc. generateCRCViolations h a = Inr crc"
proof -
  from positiveAmount_plain [OF assms]
  obtain b where "positiveAmount h (getProp a ''PastDueAmount'') = Inr b" by blast
  then show ?thesis by (simp add: generateCRCViolations_def)
qed

lemma termsDurationInvalid_plain:
  "plainItem a \<Longrightarrow> \<exists>b. termsDurationInvalid h (getProp a k) = Inr b"
  by (cases "getProp a k")
     (auto simp: termsDurationInvalid_def parseInt_plain dest: plainItem_getProp)

lemma metro2_plain:
  assumes "plainItem a"
  shows "\<exists>m. validateMetro2Violations h a = Inr m"
proof -
  from crc_plain [OF assms] obtain crc where "generateCRCViolations h a = Inr crc" by blast
  moreover from termsDurationInvalid_plain [OF assms]
  obtain t where "termsDurationInvalid h (getProp a ''@_TermsDuration'') = Inr t" by blast
  ultimately show ?thesis
    by (simp add: validateMetro2Violations_def Let_def amountField_plain [OF assms])
qed

lemma dischargedWithBalance_plain:
  "plainItem a \<Longrightarrow> \<exists>b. dischargedWithBalance h a = Inr b"
  by (auto simp: dischargedWithBalance_def amountField_plain)

lemma collectionExceedsOriginal_plain:
  "plainItem a \<Longrightarrow> \<exists>b. collectionExceedsOriginal h a = Inr b"
  by (auto simp: collectionExceedsOriginal_def amountField_plain)

lemma chargeoffRecentActivity_plain:
  "plainItem a \<Longrightarrow> \<exists>b. chargeoffRecentActivity h a = Inr b"
  by (auto simp: chargeoffRecentActivity_def dateIsAfter_plain)

lemma fcra_plain:
  assumes "plainItem a"
  shows "\<exists>f. validateFCRAViolations h a = Inr f"
proof -
  from crc_plain [OF assms] obtain crc where "generateCRCViolations h a = Inr crc" by blast
  moreover from dateIsBefore_plain [OF assms]
  obtain t where "dateIsBefore h (getProp a ''@_DateOpened'') (sevenYearsAgo h) = Inr t" by blast
  moreover from dischargedWithBalance_plain [OF assms]
  obtain b where "dischargedWithBalance h a = Inr b" by blast
  ultimately show ?thesis by (simp add: validateFCRAViolations_def Let_def)
qed

lemma fdcpa_plain:
  assumes "plainItem a"
  shows "\<exists>d. validateFDCPAViolations h a = Inr d"
proof -
  from crc_plain [OF assms] obtain crc where "generateCRCViolations h a = Inr crc" by blast
  moreover from collectionExceedsOriginal_plain [OF assms]
  obtain t where "collectionExceedsOriginal h a = Inr t" by blast
  moreover from chargeoffRecentActivity_plain [OF assms]
  obtain b where "chargeoffRecentActivity h a = Inr b" by blast
  ultimately show ?thesis by (simp add: validateFDCPAViolations_def)
qed

lemma validateAccount_plain:
  assumes "plainItem a"
  shows "\<exists>r. validateAccount h a = Inr r"
proof -
  from metro2_plain [OF assms] obtain m where "validateMetro2Violations h a = Inr m" by blast
  moreover from fcra_plain [OF assms] obtain f where "validateFCRAViolations h a = Inr f" by blast
  moreover from fdcpa_plain [OF assms] obtain d where "validateFDCPAViolations h a = Inr d" by blast
  ultimately show ?thesis by (simp add: validateAccount_def)
qed

lemma validatePublicRecord_plain:
  assumes "plainItem a"
  shows "\<exists>r. validatePublicRecord h a = Inr r"
proof -
  from dateIsBefore_jor_plain [OF assms]
  obtain b where "dateIsBefore h (jor (getProp a ''@_DateReported'') (getProp a ''@_DateFiled''))
                    (sevenYearsAgo h) = Inr b" by blast
  then show ?thesis by (simp add: validatePublicRecord_def publicRecordChecks_def Let_def)
qed

lemma validateInquiry_plain:
  assumes "plainItem a"
  shows "\<exists>r. validateInquiry h a = Inr r"
proof -
  from dateIsBefore_plain [OF assms]
  obtain b where "dateIsBefore h (getProp a ''@_DateOfInquiry'') (twoYearsAgo h) = Inr b" by blast
  then show ?thesis by (simp add: validateInquiry_def inquiryChecks_def)
qed

subsection \<open>What a returned list holds\<close>

lemma crc_subset: "generateCRCViolations h a = Inr crc \<Longrightarrow> set crc \<subseteq> set crcTexts"
  by (auto simp: generateCRCViolations_def crcTexts_def split: sum.splits)

lemma crc_part_subset:
  "generateCRCViolations h a = Inr crc \<Longrightarrow>
   set (map crcViolation (filter p crc)) \<subseteq> set accountCatalogue"
  using crc_subset [of h a crc] by (auto simp: accountCatalogue_def)

lemma metro2_Inr:
  assumes "validateMetro2Violations h a = Inr m"
  obtains crc t cb cl where "generateCRCViolations h a = Inr crc"
    and "termsDurationInvalid h (getProp a ''@_TermsDuration'') = Inr t"
    and "amountField h a ''@_CurrentBalance'' = Inr cb"
    and "amountField h a ''@_CreditLimit'' = Inr cl"
    and "m = map crcViolation (filter (\<lambda>v. str_includes v ''Metro 2'') crc) @
        (if eqStr (getProp a ''@_DerogatoryDataIndicator'') ''Y'' \<and>
            \<not> truthy (getProp a ''@_DateOfFirstDelinquency'')
         then [missingDofdViolation] else []) @
        (if truthy (optProp (getProp a ''_CURRENT_RATING'') ''@_Code'') \<and>
            optProp (getProp a ''_CURRENT_RATING'') ''@_Code'' \<in> set (map (\<lambda>c. Some (JStr c))
               [''2'', ''3'', ''4'', ''5'', ''6'', ''7'', ''8'', ''9'']) \<and>
            (eqStr (getProp a ''@_AccountStatus'') ''11'' \<or>
             eqStr (getProp a ''@_AccountStatus'') ''13'' \<or>
             eqStr (getProp a ''@_AccountStatus'') ''61'')
         then [statusRatingViolation] else []) @
        (if t then [termsDurationViolation] else []) @
        (if numGt cl (Some 0) \<and> numGt cb cl then [balanceLimitViolation] else [])"
  using assms by (simp add: validateMetro2Violations_def Let_def split: sum.splits)

lemma fcra_Inr:
  assumes "validateFCRAViolations h a = Inr f"
  obtains crc ob dis where "generateCRCViolations h a = Inr crc"
    and "dateIsBefore h (getProp a ''@_DateOpened'') (sevenYearsAgo h) = Inr ob"
    and "dischargedWithBalance h a = Inr dis"
    and "f = map crcViolation (filter (\<lambda>v. str_includes v ''FCRA'') crc) @
        (if ob \<and> eqStr (getProp a ''@_DerogatoryDataIndicator'') ''Y''
         then [outdatedAccountViolation] else []) @
        (if dis then [bankruptcyViolation] else []) @
        (if truthy (getProp a ''@_AccountNumber'') \<and> truthy (getProp a ''@_SubscriberCode'')
         then [duplicateViolation] else [])"
  using assms by (simp add: validateFCRAViolations_def Let_def split: sum.splits)

lemma fdcpa_Inr:
  assumes "validateFDCPAViolations h a = Inr d"
  obtains crc ex re where "generateCRCViolations h a = Inr crc"
    and "collectionExceedsOriginal h a = Inr ex"
    and "chargeoffRecentActivity h a = Inr re"
    and "d = map crcViolation (filter (\<lambda>v. str_includes v ''FDCPA'') crc) @
        (if ex then [misrepresentViolation] else []) @
        (if re then [chargeoffActivityViolation] else [])"
  using assms by (simp add: validateFDCPAViolations_def split: sum.splits)

lemma metro2_subset:
  assumes "validateMetro2Violations h a = Inr m"
  shows "set m \<subseteq> set accountCatalogue"
proof -
  from assms obtain crc t cb cl where c: "generateCRCViolations h a = Inr crc"
    and m: "m = map crcViolation (filter (\<lambda>v. str_includes v ''Metro 2'') crc) @
        (if eqStr (getProp a ''@_DerogatoryDataIndicator'') ''Y'' \<and>
            \<not> truthy (getProp a ''@_DateOfFirstDelinquency'')
         then [missingDofdViolation] else []) @
        (if truthy (optProp (getProp a ''_CURRENT_RATING'') ''@_Code'') \<and>
            optProp (getProp a ''_CURRENT_RATING'') ''@_Code'' \<in> set (map (\<lambda>c. Some (JStr c))
               [''2'', ''3'', ''4'', ''5'', ''6'', ''7'', ''8'', ''9'']) \<and>
            (eqStr (getProp a ''@_AccountStatus'') ''11'' \<or>
             eqStr (getProp a ''@_AccountStatus'') ''13'' \<or>
             eqStr (getProp a ''@_AccountStatus'') ''61'')
         then [statusRatingViolation] else []) @
        (if t then [termsDurationViolation] else []) @
        (if numGt cl (Some 0) \<and> numGt cb cl then [balanceLimitViolation] else [])"
    by (rule metro2_Inr)
  have d: "set directCatalogue \<subseteq> set accountCatalogue" by (simp add: accountCatalogue_def)
  from crc_part_subset [OF c, of "\<lambda>v. str_includes v ''Metro 2''"] d
  show ?thesis unfolding m by (auto simp: directCatalogue_def)
qed

lemma fcra_subset:
  assumes "validateFCRAViolations h a = Inr f"
  shows "set f \<subseteq> set accountCatalogue"
proof -
  from assms obtain crc ob dis where c: "generateCRCViolations h a = Inr crc"
    and f: "f = map crcViolation (filter (\<lambda>v. str_includes v ''FCRA'') crc) @
        (if ob \<and> eqStr (getProp a ''@_DerogatoryDataIndicator'') ''Y''
         then [outdatedAccountViolation] else []) @
        (if dis then [bankruptcyViolation] else []) @
        (if truthy (getProp a ''@_AccountNumber'') \<and> truthy (getProp a ''@_SubscriberCode'')
         then [duplicateViolation] else [])"
    by (rule fcra_Inr)
  have d: "set directCatalogue \<subseteq> set accountCatalogue" by (simp add: accountCatalogue_def)
  from crc_part_subset [OF c, of "\<lambda>v. str_includes v ''FCRA''"] d
  show ?thesis unfolding f by (auto simp: directCatalogue_def)
qed

lemma fdcpa_subset:
  assumes "validateFDCPAViolations h a = Inr d"
  shows "set d \<subseteq> set accountCatalogue"
proof -
  from assms obtain crc ex re where c: "generateCRCViolations h a = Inr crc"
    and f: "d = map crcViolation (filter (\<lambda>v. str_includes v ''FDCPA'') crc) @
        (if ex then [misrepresentViolation] else []) @
        (if re then [chargeoffActivityViolation] else [])"
    by (rule fdcpa_Inr)
  have d: "set directCatalogue \<subseteq> set accountCatalogue" by (simp add: accountCatalogue_def)
  from crc_part_subset [OF c, of "\<lambda>v. str_includes v ''FDCPA''"] d
  show ?thesis unfolding f by (auto simp: directCatalogue_def)
qed

lemma validateAccount_Inr:
  assumes "validateAccount h a = Inr r"
  obtains m f d where "validateMetro2Violations h a = Inr m"
    and "validateFCRAViolations h a = Inr f" and "validateFDCPAViolations h a = Inr d"
    and "r = formatValidationResult (m @ f @ d)"
  using assms by (auto simp: validateAccount_def split: sum.splits)

lemma set_validateAccount:
  assumes "validateMetro2Violations h a = Inr m"
    and "validateFCRAViolations h a = Inr f" and "validateFDCPAViolations h a = Inr d"
  shows "set (violations (formatValidationResult (m @ f @ d))) = set m \<union> set f \<union> set d"
proof -
  have "set (m @ f @ d) \<subseteq> set accountCatalogue"
    using metro2_subset [OF assms(1)] fcra_subset [OF assms(2)] fdcpa_subset [OF assms(3)]
    by simp
  from set_format_catalogue [OF this catalogue_trim catalogue_distinct]
  show ?thesis by (simp add: Un_assoc)
qed

lemma set_validatePublicRecord:
  assumes "validatePublicRecord h r = Inr res"
  obtains vs where "publicRecordChecks h r = Inr vs" and "res = formatValidationResult vs"
    and "set (violations res) = set vs"
proof -
  from assms obtain vs where vs: "publicRecordChecks h r = Inr vs"
    and res: "res = formatValidationResult vs"
    by (auto simp: validatePublicRecord_def split: sum.splits)
  from vs have "set vs \<subseteq> set recordCatalogue"
    by (auto simp: publicRecordChecks_def Let_def recordCatalogue_def split: sum.splits)
  moreover from other_catalogues(1)
  have "list_all (\<lambda>v. trim (violation v) = violation v) recordCatalogue" by simp
  ultimately have "set (violations (formatValidationResult vs)) = set vs"
    by (rule set_format_catalogue) (rule other_catalogues(2))
  with vs res that show ?thesis by simp
qed

lemma set_validateInquiry:
  assumes "validateInquiry h i = Inr res"
  obtains vs where "inquiryChecks h i = Inr vs" and "res = formatValidationResult vs"
    and "set (violations res) = set vs"
proof -
  from assms obtain vs where vs: "inquiryChecks h i = Inr vs"
    and res: "res = formatValidationResult vs"
    by (auto simp: validateInquiry_def split: sum.splits)
  from vs have "set vs \<subseteq> set inquiryCatalogue"
    by (auto simp: inquiryChecks_def Let_def inquiryCatalogue_def split: sum.splits)
  moreover from other_catalogues(1)
  have "list_all (\<lambda>v. trim (violation v) = violation v) inquiryCatalogue" by simp
  ultimately have "set (violations (formatValidationResult vs)) = set vs"
    by (rule set_format_catalogue) (rule other_catalogues(3))
  with vs res that show ?thesis by simp
qed

lemma direct_distinct: "distinct directCatalogue"
  using catalogue_distinct by (simp add: accountCatalogue_def distinct_map)

lemma direct_not_crc:
  assumes "x \<in> set directCatalogue" and "generateCRCViolations h a = Inr crc"
  shows "x \<notin> set (map crcViolation (filter p crc))"
proof
  assume "x \<in> set (map crcViolation (filter p crc))"
  with crc_subset [OF assms(2)] have "x \<in> set (map crcViolation crcTexts)" by auto
  with assms(1) catalogue_distinct show False
    by (auto simp: accountCatalogue_def distinct_map)
qed

lemmas direct_neq = direct_distinct [unfolded directCatalogue_def, simplified]

lemma direct_distinct_rev:
  "distinct [chargeoffActivityViolation, misrepresentViolation, duplicateViolation,
     bankruptcyViolation, outdatedAccountViolation, balanceLimitViolation,
     termsDurationViolation, statusRatingViolation, missingDofdViolation]"
proof -
  have "distinct (rev directCatalogue)" using direct_distinct by simp
  then show ?thesis by (simp only: directCatalogue_def rev.simps append.simps)
qed

lemmas direct_neq_rev = direct_distinct_rev [simplified]

lemma in_if_single: "(x \<in> set (if c then [y] else [])) = (c \<and> x = y)"
  by auto

subsection \<open>Which violations an account gets\<close>

lemma direct_not_crc_image:
  "x \<in> set directCatalogue \<Longrightarrow> generateCRCViolations h a = Inr crc \<Longrightarrow>
   x \<notin> crcViolation ` {v \<in> set crc. p v}"
  using direct_not_crc [of x h a crc p] by simp

lemmas direct_not_crc_simps =
  direct_not_crc_image [of missingDofdViolation, unfolded directCatalogue_def, simplified]
  direct_not_crc_image [of statusRatingViolation, unfolded directCatalogue_def, simplified]
  direct_not_crc_image [of termsDurationViolation, unfolded directCatalogue_def, simplified]
  direct_not_crc_image [of balanceLimitViolation, unfolded directCatalogue_def, simplified]
  direct_not_crc_image [of outdatedAccountViolation, unfolded directCatalogue_def, simplified]
  direct_not_crc_image [of bankruptcyViolation, unfolded directCatalogue_def, simplified]
  direct_not_crc_image [of duplicateViolation, unfolded directCatalogue_def, simplified]
  direct_not_crc_image [of misrepresentViolation, unfolded directCatalogue_def, simplified]
  direct_not_crc_image [of chargeoffActivityViolation, unfolded directCatalogue_def, simplified]

text \<open>The result of \<^const>\<open>validateAccount\<close>, when it returns one: the conversions it has
  made, and which of the nine direct violations it holds.\<close>

lemma validateAccount_result:
  assumes "validateAccount h a = Inr r"
  obtains crc t cb cl ob dis ex re where
    "generateCRCViolations h a = Inr crc"
    "termsDurationInvalid h (getProp a ''@_TermsDuration'') = Inr t"
    "amountField h a ''@_CurrentBalance'' = Inr cb"
    "amountField h a ''@_CreditLimit'' = Inr cl"
    "dateIsBefore h (getProp a ''@_DateOpened'') (sevenYearsAgo h) = Inr ob"
    "dischargedWithBalance h a = Inr dis"
    "collectionExceedsOriginal h a = Inr ex"
    "chargeoffRecentActivity h a = Inr re"
    "(missingDofdViolation \<in> set (violations r)) =
       (eqStr (getProp a ''@_DerogatoryDataIndicator'') ''Y'' \<and>
        \<not> truthy (getProp a ''@_DateOfFirstDelinquency''))"
    "(termsDurationViolation \<in> set (violations r)) = t"
    "(balanceLimitViolation \<in> set (violations r)) = (numGt cl (Some 0) \<and> numGt cb cl)"
    "(outdatedAccountViolation \<in> set (violations r)) =
       (ob \<and> eqStr (getProp a ''@_DerogatoryDataIndicator'') ''Y'')"
    "(bankruptcyViolation \<in> set (violations r)) = dis"
    "(duplicateViolation \<in> set (violations r)) =
       (truthy (getProp a ''@_AccountNumber'') \<and> truthy (getProp a ''@_SubscriberCode''))"
    "(misrepresentViolation \<in> set (violations r)) = ex"
    "(chargeoffActivityViolation \<in> set (violations r)) = re"
proof -
  from assms obtain m f d where m: "validateMetro2Violations h a = Inr m"
    and f: "validateFCRAViolations h a = Inr f" and d: "validateFDCPAViolations h a = Inr d"
    and r: "r = formatValidationResult (m @ f @ d)"
    by (rule validateAccount_Inr)
  have s: "set (violations r) = set m \<union> set f \<union> set d"
    unfolding r by (rule set_validateAccount [OF m f d])
  from m obtain crc t cb cl where c: "generateCRCViolations h a = Inr crc"
    and t: "termsDurationInvalid h (getProp a ''@_TermsDuration'') = Inr t"
    and cb: "amountField h a ''@_CurrentBalance'' = Inr cb"
    and cl: "amountField h a ''@_CreditLimit'' = Inr cl"
    and me: "m = map crcViolation (filter (\<lambda>v. str_includes v ''Metro 2'') crc) @
        (if eqStr (getProp a ''@_DerogatoryDataIndicator'') ''Y'' \<and>
            \<not> truthy (getProp a ''@_DateOfFirstDelinquency'')
         then [missingDofdViolation] else []) @
        (if truthy (optProp (getProp a ''_CURRENT_RATING'') ''@_Code'') \<and>
            optProp (getProp a ''_CURRENT_RATING'') ''@_Code'' \<in> set (map (\<lambda>c. Some (JStr c))
               [''2'', ''3'', ''4'', ''5'', ''6'', ''7'', ''8'', ''9'']) \<and>
            (eqStr (getProp a ''@_AccountStatus'') ''11'' \<or>
             eqStr (getProp a ''@_AccountStatus'') ''13'' \<or>
             eqStr (getProp a ''@_AccountStatus'') ''61'')
         then [statusRatingViolation] else []) @
        (if t then [termsDurationViolation] else []) @
        (if numGt cl (Some 0) \<and> numGt cb cl then [balanceLimitViolation] else [])"
    by (rule metro2_Inr)
  from f c obtain ob dis where
    ob: "dateIsBefore h (getProp a ''@_DateOpened'') (sevenYearsAgo h) = Inr ob"
    and dis: "dischargedWithBalance h a = Inr dis"
    and fe: "f = map crcViolation (filter (\<lambda>v. str_includes v ''FCRA'') crc) @
        (if ob \<and> eqStr (getProp a ''@_DerogatoryDataIndicator'') ''Y''
         then [outdatedAccountViolation] else []) @
        (if dis then [bankruptcyViolation] else []) @
        (if truthy (getProp a ''@_AccountNumber'') \<and> truthy (getProp a ''@_SubscriberCode'')
         then [duplicateViolation] else [])"
    by (auto elim!: fcra_Inr)
  from d c obtain ex re where ex: "collectionExceedsOriginal h a = Inr ex"
    and re: "chargeoffRecentActivity h a = Inr re"
    and de: "d = map crcViolation (filter (\<lambda>v. str_includes v ''FDCPA'') crc) @
        (if ex then [misrepresentViolation] else []) @
        (if re then [chargeoffActivityViolation] else [])"
    by (auto elim!: fdcpa_Inr)
  note n = direct_not_crc_simps [OF c]
  note e = s me fe de set_append set_map set_filter Un_iff in_if_single n
  have 1: "(missingDofdViolation \<in> set (violations r)) =
       (eqStr (getProp a ''@_DerogatoryDataIndicator'') ''Y'' \<and>
        \<not> truthy (getProp a ''@_DateOfFirstDelinquency''))"
    using direct_neq direct_neq_rev by (simp add: e)
  have 2: "(termsDurationViolation \<in> set (violations r)) = t"
    using direct_neq direct_neq_rev by (simp add: e)
  have 3: "(balanceLimitViolation \<in> set (violations r)) = (numGt cl (Some 0) \<and> numGt cb cl)"
    using direct_neq direct_neq_rev by (simp add: e)
  have 4: "(outdatedAccountViolation \<in> set (violations r)) =
       (ob \<and> eqStr (getProp a ''@_DerogatoryDataIndicator'') ''Y'')"
    using direct_neq direct_neq_rev by (simp add: e)
  have 5: "(bankruptcyViolation \<in> set (violations r)) = dis"
    using direct_neq direct_neq_rev by (simp add: e)
  have 6: "(duplicateViolation \<in> set (violations r)) =
       (truthy (getProp a ''@_AccountNumber'') \<and> truthy (getProp a ''@_SubscriberCode''))"
    using direct_neq direct_neq_rev by (simp add: e)
  have 7: "(misrepresentViolation \<in> set (violations r)) = ex"
    using direct_neq direct_neq_rev by (simp add: e)
  have 8: "(chargeoffActivityViolation \<in> set (violations r)) = re"
    using direct_neq direct_neq_rev by (simp add: e)
  from that [OF c t cb cl ob dis ex re 1 2 3 4 5 6 7 8] show ?thesis .
qed

lemma duplicate_in_fcra:
  assumes "validateFCRAViolations h a = Inr f"
  shows "(duplicateViolation \<in> set f) =
     (truthy (getProp a ''@_AccountNumber'') \<and> truthy (getProp a ''@_SubscriberCode''))"
proof -
  from assms obtain crc ob dis where c: "generateCRCViolations h a = Inr crc"
    and fe: "f = map crcViolation (filter (\<lambda>v. str_includes v ''FCRA'') crc) @
        (if ob \<and> eqStr (getProp a ''@_DerogatoryDataIndicator'') ''Y''
         then [outdatedAccountViolation] else []) @
        (if dis then [bankruptcyViolation] else []) @
        (if truthy (getProp a ''@_AccountNumber'') \<and> truthy (getProp a ''@_SubscriberCode'')
         then [duplicateViolation] else [])"
    by (rule fcra_Inr)
  note n = direct_not_crc_simps [OF c]
  show ?thesis
    using direct_neq direct_neq_rev
    by (simp add: fe set_append set_map set_filter Un_iff in_if_single n)
qed

subsection \<open>Dates that cannot be used\<close>

lemma noUsableDate_before: "noUsableDate h v \<Longrightarrow> dateIsBefore h v c = Inr b \<Longrightarrow> \<not> b"
  by (cases v) (auto simp: noUsableDate_def dateIsBefore_def dateOf_def split: if_splits)

lemma noUsableDate_after: "noUsableDate h v \<Longrightarrow> dateIsAfter h v c = Inr b \<Longrightarrow> \<not> b"
  by (cases v) (auto simp: noUsableDate_def dateIsAfter_def dateOf_def split: if_splits)

lemma outdatedRecord_iff:
  assumes "validatePublicRecord h r = Inr res"
  obtains b where
    "dateIsBefore h (jor (getProp r ''@_DateReported'') (getProp r ''@_DateFiled''))
       (sevenYearsAgo h) = Inr b"
    "(outdatedRecordViolation \<in> set (violations res)) = b"
    "(missingConditionCodeViolation \<in> set (violations res)) =
       (\<not> truthy (getProp r ''@_ComplianceConditionCode''))"
proof -
  have ne: "outdatedRecordViolation \<noteq> missingConditionCodeViolation"
    using other_catalogues(2) by (simp add: recordCatalogue_def) metis
  from assms obtain vs where vs: "publicRecordChecks h r = Inr vs"
    and s: "set (violations res) = set vs"
    by (rule set_validatePublicRecord)
  from vs obtain b where b: "dateIsBefore h (jor (getProp r ''@_DateReported'') (getProp r ''@_DateFiled''))
       (sevenYearsAgo h) = Inr b"
    and e: "vs = (if b then [outdatedRecordViolation] else []) @
        (if \<not> truthy (getProp r ''@_ComplianceConditionCode'')
         then [missingConditionCodeViolation] else [])"
    by (auto simp: publicRecordChecks_def Let_def split: sum.splits)
  from ne have ne': "missingConditionCodeViolation \<noteq> outdatedRecordViolation" by simp
  have 1: "(outdatedRecordViolation \<in> set (violations res)) = b"
    using ne ne' by (simp add: s e in_if_single)
  have 2: "(missingConditionCodeViolation \<in> set (violations res)) =
       (\<not> truthy (getProp r ''@_ComplianceConditionCode''))"
    using ne ne' by (simp add: s e in_if_single)
  from that [OF b 1 2] show ?thesis .
qed

lemma outdatedInquiry_iff:
  assumes "validateInquiry h i = Inr res"
  obtains b where
    "dateIsBefore h (getProp i ''@_DateOfInquiry'') (twoYearsAgo h) = Inr b"
    "(outdatedInquiryViolation \<in> set (violations res)) = b"
    "(missingPurposeViolation \<in> set (violations res)) =
       (\<not> truthy (getProp i ''@_InquiryPurpose''))"
proof -
  have ne: "outdatedInquiryViolation \<noteq> missingPurposeViolation"
    using other_catalogues(3) by (simp add: inquiryCatalogue_def) metis
  from assms obtain vs where vs: "inquiryChecks h i = Inr vs"
    and s: "set (violations res) = set vs"
    by (rule set_validateInquiry)
  from vs obtain b where b: "dateIsBefore h (getProp i ''@_DateOfInquiry'') (twoYearsAgo h) = Inr b"
    and e: "vs = (if b then [outdatedInquiryViolation] else []) @
        (if \<not> truthy (getProp i ''@_InquiryPurpose'')
         then [missingPurposeViolation] else [])"
    by (auto simp: inquiryChecks_def split: sum.splits)
  from ne have ne': "missingPurposeViolation \<noteq> outdatedInquiryViolation" by simp
  have 1: "(outdatedInquiryViolation \<in> set (violations res)) = b"
    using ne ne' by (simp add: s e in_if_single)
  have 2: "(missingPurposeViolation \<in> set (violations res)) =
       (\<not> truthy (getProp i ''@_InquiryPurpose''))"
    using ne ne' by (simp add: s e in_if_single)
  from that [OF b 1 2] show ?thesis .
qed

subsection \<open>An account without one of its fields\<close>

lemma getProp_withoutKey:
  "getProp (withoutKey k a) k' = (if k' = k then None else getProp a k')"
  by (induction a) (auto simp: getProp_def withoutKey_def)

lemma amountField_withoutKey:
  "k' \<noteq> k \<Longrightarrow> amountField h (withoutKey k a) k' = amountField h a k'"
  by (simp add: amountField_def getProp_withoutKey)

lemma crc_withoutKey:
  "generateCRCViolations h (withoutKey ''@_DerogatoryDataIndicator'' a) = generateCRCViolations h a"
  by (simp add: generateCRCViolations_def getProp_withoutKey)

lemma metro2_withoutKey:
  assumes derog: "eqStr (getProp a ''@_DerogatoryDataIndicator'') ''Y''"
    and nodate: "\<not> truthy (getProp a ''@_DateOfFirstDelinquency'')"
    and m: "validateMetro2Violations h a = Inr m"
  shows "\<exists>m'. validateMetro2Violations h (withoutKey ''@_DerogatoryDataIndicator'' a) = Inr m' \<and>
           set m = insert missingDofdViolation (set m')"
proof -
  let ?b = "withoutKey ''@_DerogatoryDataIndicator'' a"
  from m obtain crc t cb cl where c: "generateCRCViolations h a = Inr crc"
    and t: "termsDurationInvalid h (getProp a ''@_TermsDuration'') = Inr t"
    and cb: "amountField h a ''@_CurrentBalance'' = Inr cb"
    and cl: "amountField h a ''@_CreditLimit'' = Inr cl"
    and me: "m = map crcViolation (filter (\<lambda>v. str_includes v ''Metro 2'') crc) @
        (if eqStr (getProp a ''@_DerogatoryDataIndicator'') ''Y'' \<and>
            \<not> truthy (getProp a ''@_DateOfFirstDelinquency'')
         then [missingDofdViolation] else []) @
        (if truthy (optProp (getProp a ''_CURRENT_RATING'') ''@_Code'') \<and>
            optProp (getProp a ''_CURRENT_RATING'') ''@_Code'' \<in> set (map (\<lambda>c. Some (JStr c))
               [''2'', ''3'', ''4'', ''5'', ''6'', ''7'', ''8'', ''9'']) \<and>
            (eqStr (getProp a ''@_AccountStatus'') ''11'' \<or>
             eqStr (getProp a ''@_AccountStatus'') ''13'' \<or>
             eqStr (getProp a ''@_AccountStatus'') ''61'')
         then [statusRatingViolation] else []) @
        (if t then [termsDurationViolation] else []) @
        (if numGt cl (Some 0) \<and> numGt cb cl then [balanceLimitViolation] else [])"
    by (rule metro2_Inr)
  let ?m' = "map crcViolation (filter (\<lambda>v. str_includes v ''Metro 2'') crc) @
        (if truthy (optProp (getProp a ''_CURRENT_RATING'') ''@_Code'') \<and>
            optProp (getProp a ''_CURRENT_RATING'') ''@_Code'' \<in> set (map (\<lambda>c. Some (JStr c))
               [''2'', ''3'', ''4'', ''5'', ''6'', ''7'', ''8'', ''9'']) \<and>
            (eqStr (getProp a ''@_AccountStatus'') ''11'' \<or>
             eqStr (getProp a ''@_AccountStatus'') ''13'' \<or>
             eqStr (getProp a ''@_AccountStatus'') ''61'')
         then [statusRatingViolation] else []) @
        (if t then [termsDurationViolation] else []) @
        (if numGt cl (Some 0) \<and> numGt cb cl then [balanceLimitViolation] else [])"
  have "validateMetro2Violations h ?b = Inr ?m'"
    by (simp add: validateMetro2Violations_def Let_def crc_withoutKey c getProp_withoutKey t
          amountField_withoutKey cb cl eqStr_def)
  moreover from derog nodate have "set m = insert missingDofdViolation (set ?m')"
    unfolding me by simp
  ultimately show ?thesis by blast
qed

lemma collection_withoutKey:
  "collectionExceedsOriginal h (withoutKey ''@_DerogatoryDataIndicator'' a) =
   collectionExceedsOriginal h a"
  by (simp add: collectionExceedsOriginal_def getProp_withoutKey amountField_withoutKey
        cong: sum.case_cong)

lemma chargeoff_withoutKey:
  "chargeoffRecentActivity h (withoutKey ''@_DerogatoryDataIndicator'' a) =
   chargeoffRecentActivity h a"
  by (simp add: chargeoffRecentActivity_def getProp_withoutKey)

lemma discharged_withoutKey:
  "dischargedWithBalance h (withoutKey ''@_DerogatoryDataIndicator'' a) =
   dischargedWithBalance h a"
  by (simp add: dischargedWithBalance_def getProp_withoutKey amountField_withoutKey)

lemma fdcpa_withoutKey:
  "validateFDCPAViolations h (withoutKey ''@_DerogatoryDataIndicator'' a) =
   validateFDCPAViolations h a"
  by (simp add: validateFDCPAViolations_def crc_withoutKey collection_withoutKey
        chargeoff_withoutKey cong: sum.case_cong)

lemma fcra_withoutKey:
  assumes f: "validateFCRAViolations h a = Inr f"
  shows "\<exists>f'. validateFCRAViolations h (withoutKey ''@_DerogatoryDataIndicator'' a) = Inr f' \<and>
           set f - {outdatedAccountViolation} = set f' - {outdatedAccountViolation}"
proof -
  let ?b = "withoutKey ''@_DerogatoryDataIndicator'' a"
  from f obtain crc ob dis where c: "generateCRCViolations h a = Inr crc"
    and ob: "dateIsBefore h (getProp a ''@_DateOpened'') (sevenYearsAgo h) = Inr ob"
    and dis: "dischargedWithBalance h a = Inr dis"
    and fe: "f = map crcViolation (filter (\<lambda>v. str_includes v ''FCRA'') crc) @
        (if ob \<and> eqStr (getProp a ''@_DerogatoryDataIndicator'') ''Y''
         then [outdatedAccountViolation] else []) @
        (if dis then [bankruptcyViolation] else []) @
        (if truthy (getProp a ''@_AccountNumber'') \<and> truthy (getProp a ''@_SubscriberCode'')
         then [duplicateViolation] else [])"
    by (rule fcra_Inr)
  let ?f' = "map crcViolation (filter (\<lambda>v. str_includes v ''FCRA'') crc) @
        (if dis then [bankruptcyViolation] else []) @
        (if truthy (getProp a ''@_AccountNumber'') \<and> truthy (getProp a ''@_SubscriberCode'')
         then [duplicateViolation] else [])"
  have "validateFCRAViolations h ?b = Inr ?f'"
    by (simp add: validateFCRAViolations_def Let_def crc_withoutKey c getProp_withoutKey ob
          discharged_withoutKey dis eqStr_def)
  moreover have "set f - {outdatedAccountViolation} = set ?f' - {outdatedAccountViolation}"
    unfolding fe by auto
  ultimately show ?thesis by blast
qed

lemma outdatedAccount_not_metro2:
  "\<not> str_includes (violation outdatedAccountViolation) ''Metro 2''"
  by code_simp

lemma missingDofd_text:
  "str_includes (violation missingDofdViolation) ''Metro 2'' \<and>
   str_includes (violation missingDofdViolation) ''Missing Date of First Delinquency'' \<and>
   source missingDofdViolation = ''CRC Advanced Disputing Workbook, Page 3-46''"
  by code_simp

lemma metro2_part_withoutKey:
  assumes derog: "eqStr (getProp a ''@_DerogatoryDataIndicator'') ''Y''"
    and nodate: "\<not> truthy (getProp a ''@_DateOfFirstDelinquency'')"
    and r: "validateAccount h a = Inr r"
  shows "\<exists>r'. validateAccount h (withoutKey ''@_DerogatoryDataIndicator'' a) = Inr r' \<and>
     {v \<in> set (violations r). str_includes (violation v) ''Metro 2''} =
       insert missingDofdViolation
         {v \<in> set (violations r'). str_includes (violation v) ''Metro 2''}"
proof -
  let ?b = "withoutKey ''@_DerogatoryDataIndicator'' a"
  let ?M = "\<lambda>v. str_includes (violation v) ''Metro 2''"
  from r obtain m f d where m: "validateMetro2Violations h a = Inr m"
    and f: "validateFCRAViolations h a = Inr f" and d: "validateFDCPAViolations h a = Inr d"
    and re: "r = formatValidationResult (m @ f @ d)"
    by (rule validateAccount_Inr)
  from metro2_withoutKey [OF derog nodate m] obtain m'
    where m': "validateMetro2Violations h ?b = Inr m'"
      and ms: "set m = insert missingDofdViolation (set m')" by blast
  from fcra_withoutKey [OF f] obtain f'
    where f': "validateFCRAViolations h ?b = Inr f'"
      and fs: "set f - {outdatedAccountViolation} = set f' - {outdatedAccountViolation}" by blast
  from d have d': "validateFDCPAViolations h ?b = Inr d" by (simp add: fdcpa_withoutKey)
  let ?r' = "formatValidationResult (m' @ f' @ d)"
  have v': "validateAccount h ?b = Inr ?r'" by (simp add: validateAccount_def m' f' d')
  have s: "set (violations r) = set m \<union> set f \<union> set d"
    unfolding re by (rule set_validateAccount [OF m f d])
  have s': "set (violations ?r') = set m' \<union> set f' \<union> set d"
    by (rule set_validateAccount [OF m' f' d'])
  have ff: "{v \<in> set f. ?M v} = {v \<in> set f'. ?M v}"
  proof -
    have "{v \<in> set f. ?M v} = {v \<in> set f - {outdatedAccountViolation}. ?M v}"
      using outdatedAccount_not_metro2 by auto
    also have "\<dots> = {v \<in> set f' - {outdatedAccountViolation}. ?M v}" by (simp only: fs)
    also have "\<dots> = {v \<in> set f'. ?M v}" using outdatedAccount_not_metro2 by auto
    finally show ?thesis .
  qed
  have "{v \<in> set (violations r). ?M v} =
        {v \<in> set m. ?M v} \<union> {v \<in> set f. ?M v} \<union> {v \<in> set d. ?M v}"
    by (auto simp: s)
  also have "\<dots> = insert missingDofdViolation
        ({v \<in> set m'. ?M v} \<union> {v \<in> set f'. ?M v} \<union> {v \<in> set d. ?M v})"
    using missingDofd_text by (auto simp: ms ff)
  also have "\<dots> = insert missingDofdViolation {v \<in> set (violations ?r'). ?M v}"
    by (auto simp: s')
  finally show ?thesis using v' by blast
qed

subsection \<open>An account with another status\<close>



lemma chargeoff_noUsableDate:
  "noUsableDate h (getProp a ''@_DateLastActivity'') \<Longrightarrow>
   chargeoffRecentActivity h a = Inr re \<Longrightarrow> \<not> re"
  by (auto simp: chargeoffRecentActivity_def split: if_splits dest: noUsableDate_after)

lemma Inr_projr: "\<not> isl x \<Longrightarrow> x = Inr (projr x)"
  by (cases x) simp_all

lemma keepFirst_snoc:
  "keepFirst key seen (xs @ [x]) =
     keepFirst key seen xs @
     (if trim (key x) \<in> set seen \<or> (\<exists>y\<in>set xs. trim (key y) = trim (key x)) then [] else [x])"
  by (induction xs arbitrary: seen) auto

lemma uniqueBy_keepFirst: "uniqueBy key xs = keepFirst key [] xs"
  by (induction xs rule: rev_induct) (simp_all add: uniqueBy_Nil uniqueBy_snoc keepFirst_snoc)

lemma categoryCompare_rank: "(categoryCompare a b \<le> 0) = (categoryRank a \<le> categoryRank b)"
  by (simp add: categoryCompare_def categoryRank_def)

lemma insertSorted_insort:
  "insertSorted (\<lambda>a b. categoryCompare (key a) (key b)) x ys =
   insort_key (\<lambda>v. categoryRank (key v)) x ys"
  by (induction ys) (simp_all add: categoryCompare_rank)

lemma jsSort_sort_key:
  "jsSort (\<lambda>a b. categoryCompare (key a) (key b)) xs = sort_key (\<lambda>v. categoryRank (key v)) xs"
  by (induction xs) (simp_all add: jsSort_def insertSorted_insort)

lemma sorted_split:
  "sorted (map f ys) \<Longrightarrow> ys = filter (\<lambda>x. f x < (k::nat)) ys @ filter (\<lambda>x. \<not> f x < k) ys"
proof (induction ys)
  case Nil
  then show ?case by simp
next
  case (Cons y ys)
  then have s: "sorted (map f ys)" and le: "\<forall>x\<in>set ys. f y \<le> f x" by auto
  show ?case
  proof (cases "f y < k")
    case True
    with Cons.IH [OF s] show ?thesis by simp
  next
    case False
    with le have "\<forall>x\<in>set ys. \<not> f x < k" by auto
    then have "filter (\<lambda>x. f x < k) ys = []" "filter (\<lambda>x. \<not> f x < k) ys = ys"
      by (simp_all add: filter_empty_conv filter_id_conv)
    with False show ?thesis by simp
  qed
qed

lemma sorted_buckets:
  "sorted (map f ys) \<Longrightarrow> \<forall>y\<in>set ys. f y < n \<Longrightarrow>
     ys = concat (map (\<lambda>k. filter (\<lambda>x. f x = k) ys) [0..<n])"
proof (induction n arbitrary: ys)
  case 0
  then show ?case by (cases ys) auto
next
  case (Suc n)
  let ?lo = "filter (\<lambda>x. f x < n) ys"
  have slo: "sorted (map f ?lo)" using Suc.prems(1) by (simp add: sorted_filter)
  have blo: "\<forall>y\<in>set ?lo. f y < n" by simp
  have lo: "?lo = concat (map (\<lambda>k. filter (\<lambda>x. f x = k) ?lo) [0..<n])"
    by (rule Suc.IH [OF slo blo])
  have eq: "filter (\<lambda>x. f x = k) ?lo = filter (\<lambda>x. f x = k) ys" if "k < n" for k
    using that by (auto intro: filter_cong)
  have "concat (map (\<lambda>k. filter (\<lambda>x. f x = k) ?lo) [0..<n]) =
        concat (map (\<lambda>k. filter (\<lambda>x. f x = k) ys) [0..<n])"
    by (rule arg_cong [where f = concat], rule map_cong [OF refl]) (simp add: eq del: filter_filter)
  from trans [OF lo this]
  have lo': "?lo = concat (map (\<lambda>k. filter (\<lambda>x. f x = k) ys) [0..<n])" .
  have "filter (\<lambda>x. \<not> f x < n) ys = filter (\<lambda>x. f x = n) ys"
    using Suc.prems(2) by (intro filter_cong) auto
  with sorted_split [OF Suc.prems(1), of n] lo'
  have "ys = concat (map (\<lambda>k. filter (\<lambda>x. f x = k) ys) [0..<n]) @ filter (\<lambda>x. f x = n) ys"
    by simp
  then show ?case by simp
qed

lemma sort_key_buckets:
  assumes "\<forall>y\<in>set xs. f y < n"
  shows "sort_key f xs = concat (map (\<lambda>k. filter (\<lambda>x. f x = k) xs) [0..<n])"
proof -
  have "sort_key f xs = concat (map (\<lambda>k. filter (\<lambda>x. f x = k) (sort_key f xs)) [0..<n])"
    using assms by (intro sorted_buckets) (simp_all add: sorted_sort_key)
  then show ?thesis by (simp only: sort_key_stable)
qed

lemma categoryRank_less: "categoryRank s < 8"
  by (simp add: categoryRank_def)

lemma rank_filters:
  "filter (\<lambda>x. categoryRank (key x) = 0) xs = categoryGroup key True True True xs"
  "filter (\<lambda>x. categoryRank (key x) = Suc 0) xs = categoryGroup key True True False xs"
  "filter (\<lambda>x. categoryRank (key x) = 2) xs = categoryGroup key True False True xs"
  "filter (\<lambda>x. categoryRank (key x) = 3) xs = categoryGroup key True False False xs"
  "filter (\<lambda>x. categoryRank (key x) = 4) xs = categoryGroup key False True True xs"
  "filter (\<lambda>x. categoryRank (key x) = 5) xs = categoryGroup key False True False xs"
  "filter (\<lambda>x. categoryRank (key x) = 6) xs = categoryGroup key False False True xs"
  "filter (\<lambda>x. categoryRank (key x) = 7) xs = categoryGroup key False False False xs"
  unfolding categoryGroup_def
  by (rule filter_cong [OF refl], simp add: categoryRank_def)+

lemma jsSort_categoryOrder:
  "jsSort (\<lambda>a b. categoryCompare (key a) (key b)) xs = categoryOrder key xs"
proof -
  have "sort_key (\<lambda>v. categoryRank (key v)) xs =
        concat (map (\<lambda>k. filter (\<lambda>x. categoryRank (key x) = k) xs) [0..<8])"
    by (rule sort_key_buckets) (simp add: categoryRank_less)
  also have "[0..<8] = [0, 1, 2, 3, 4, 5, 6, 7::nat]"
    by (simp add: upt_rec)
  finally show ?thesis
    by (simp add: jsSort_sort_key rank_filters categoryOrder_def)
qed

lemma single_categoryOrder:
  assumes "\<forall>x\<in>set xs. singleCategory (key x)"
  shows "categoryOrder key xs = claimedOrder key xs"
proof -
  have e: "categoryGroup key True True d xs = []" "categoryGroup key True f True xs = []"
    "categoryGroup key m True True xs = []" for m f d
    using assms by (auto simp: categoryGroup_def singleCategory_def filter_empty_conv)
  have "categoryGroup key True False False xs = filter (\<lambda>x. str_includes (key x) ''Metro 2'') xs"
    unfolding categoryGroup_def using assms
    by (intro filter_cong [OF refl]) (auto simp: singleCategory_def)
  moreover have "categoryGroup key False True False xs =
      filter (\<lambda>x. \<not> str_includes (key x) ''Metro 2'' \<and> str_includes (key x) ''FCRA'') xs"
    unfolding categoryGroup_def using assms
    by (intro filter_cong [OF refl]) (auto simp: singleCategory_def)
  moreover have "categoryGroup key False False True xs =
      filter (\<lambda>x. \<not> str_includes (key x) ''Metro 2'' \<and> \<not> str_includes (key x) ''FCRA'' \<and>
                 str_includes (key x) ''FDCPA'') xs"
    unfolding categoryGroup_def by (intro filter_cong [OF refl]) auto
  moreover have "categoryGroup key False False False xs =
      filter (\<lambda>x. \<not> str_includes (key x) ''Metro 2'' \<and> \<not> str_includes (key x) ''FCRA'' \<and>
                 \<not> str_includes (key x) ''FDCPA'') xs"
    unfolding categoryGroup_def by (intro filter_cong [OF refl]) auto
  ultimately show ?thesis
    by (simp add: categoryOrder_def claimedOrder_def e)
qed

lemma set_keepFirst: "set (keepFirst key seen xs) \<subseteq> set xs"
  by (induction xs arbitrary: seen) auto

section \<open>The scans\<close>

subsection \<open>Loops that stop at the first error\<close>




subsection \<open>Dictionaries\<close>

lemma map_of_replace:
  "map_of (map (\<lambda>(k', v'). if k' = k then (k', v) else (k', v')) m) x =
     (if x = k then map_option (\<lambda>_. v) (map_of m k) else map_of m x)"
  by (induction m) auto

lemma map_of_insertIndexKey:
  "k \<notin> fst ` set m \<Longrightarrow>
   map_of (insertIndexKey n k v m) x = (if x = k then Some v else map_of m x)"
  by (induction m) (auto split: option.splits)

lemma map_of_snoc:
  "k \<notin> fst ` set m \<Longrightarrow> map_of (m @ [(k, v)]) x = (if x = k then Some v else map_of m x)"
  by (induction m) auto

lemma map_of_assign:
  "map_of (assign k v m) x =
     (if k = ''__proto__'' then map_of m x else if x = k then Some v else map_of m x)"
proof (cases "map_of m k")
  case None
  then have "k \<notin> fst ` set m" by (simp add: map_of_eq_None_iff)
  with None show ?thesis
    by (simp add: assign_def map_of_insertIndexKey map_of_snoc del: map_of_append
          split: option.splits)
next
  case (Some w)
  then show ?thesis by (simp add: assign_def map_of_replace)
qed

lemma assignAll_Cons: "assignAll m ((k, v) # es) = assignAll (assign k v m) es"
  by (simp add: assignAll_def)




lemma map_of_assignAll_proto: "map_of (assignAll [] es) ''__proto__'' = None"
proof -
  have "map_of m ''__proto__'' = None \<Longrightarrow> map_of (assignAll m es) ''__proto__'' = None" for m
  proof (induction es arbitrary: m)
    case Nil
    then show ?case by (simp add: assignAll_def)
  next
    case (Cons e es)
    obtain k v where e: "e = (k, v)" by (cases e)
    from Cons.prems have "map_of (assign k v m) ''__proto__'' = None"
      by (simp add: map_of_assign)
    from Cons.IH [OF this] show ?case by (simp add: e assignAll_Cons)
  qed
  then show ?thesis by simp
qed








subsection \<open>The static scan\<close>




























section \<open>Claims about the validator\<close>

text \<open>
  C10. An account with non-empty values in both \<^verbatim>\<open>@_AccountNumber\<close> and
  \<^verbatim>\<open>@_SubscriberCode\<close> always gets the "Potential duplicate account" FCRA violation:
  \<^const>\<open>validateFCRAViolations\<close> looks at this one account only and compares it with no
  other, and whenever it returns a list the violation is in it. So every result of
  \<^const>\<open>validateAccount\<close> for the account reports violations and gives no no-violation
  message. Both functions return (no conversion throws) whenever no field of the
  account is an object with a key \<^verbatim>\<open>toString\<close> of its own.
\<close>

theorem potential_duplicate_unconditional:
  assumes "truthy (getProp account ''@_AccountNumber'')"
    and "truthy (getProp account ''@_SubscriberCode'')"
  shows "(\<forall>f. validateFCRAViolations h account = Inr f \<longrightarrow> duplicateViolation \<in> set f) \<and>
         (\<forall>r. validateAccount h account = Inr r \<longrightarrow>
            duplicateViolation \<in> set (violations r) \<and> hasViolations r \<and>
            noViolationMessage r = None) \<and>
         (plainItem account \<longrightarrow>
            (\<exists>f. validateFCRAViolations h account = Inr f) \<and>
            (\<exists>r. validateAccount h account = Inr r))"
proof (intro conjI allI impI)
  fix f assume "validateFCRAViolations h account = Inr f"
  with assms show "duplicateViolation \<in> set f" by (simp add: duplicate_in_fcra)
next
  fix r assume r: "validateAccount h account = Inr r"
  then obtain m f d where f: "validateFCRAViolations h account = Inr f"
    and re: "r = formatValidationResult (m @ f @ d)"
    by (rule validateAccount_Inr)
  from f assms have "duplicateViolation \<in> set f" by (simp add: duplicate_in_fcra)
  then have ne: "m @ f @ d \<noteq> []" by auto
  from r assms show "duplicateViolation \<in> set (violations r)"
    by (auto elim!: validateAccount_result)
  from ne show "hasViolations r" by (simp add: re hasViolations_format)
  from ne show "noViolationMessage r = None" by (simp add: re noViolationMessage_format)
next
  assume "plainItem account"
  then show "\<exists>f. validateFCRAViolations h account = Inr f" by (rule fcra_plain)
next
  assume "plainItem account"
  then show "\<exists>r. validateAccount h account = Inr r" by (rule validateAccount_plain)
qed

theorem potential_duplicate_witness:
  "truthy (getProp [(''@_AccountNumber'', JStr ''4000123''), (''@_SubscriberCode'', JStr ''B1X'')] ''@_AccountNumber'') \<and>
   truthy (getProp [(''@_AccountNumber'', JStr ''4000123''), (''@_SubscriberCode'', JStr ''B1X'')] ''@_SubscriberCode'') \<and>
   plainItem [(''@_AccountNumber'', JStr ''4000123''), (''@_SubscriberCode'', JStr ''B1X'')] \<and>
   (\<exists>r. validateAccount exampleHost
           [(''@_AccountNumber'', JStr ''4000123''), (''@_SubscriberCode'', JStr ''B1X'')] = Inr r \<and>
        duplicateViolation \<in> set (violations r) \<and> noViolationMessage r = None)"
proof -
  let ?a = "[(''@_AccountNumber'', JStr ''4000123''), (''@_SubscriberCode'', JStr ''B1X'')]"
  have a: "truthy (getProp ?a ''@_AccountNumber'')" by (simp add: getProp_def)
  have b: "truthy (getProp ?a ''@_SubscriberCode'')" by (simp add: getProp_def)
  have p: "plainItem ?a" by (simp add: plainItem_def)
  from potential_duplicate_unconditional [OF a b, of exampleHost] p
  have "\<exists>r. validateAccount exampleHost ?a = Inr r \<and>
          duplicateViolation \<in> set (violations r) \<and> noViolationMessage r = None"
    by blast
  with a b p show ?thesis by blast
qed

text \<open>
  C8. No date rule fires on a date that is absent or that the host does not parse:
  the seven-year rule for accounts (\<^verbatim>\<open>@_DateOpened\<close>), the seven-year rule for public
  records (\<^verbatim>\<open>@_DateReported || @_DateFiled\<close>), the two-year rule for inquiries
  (\<^verbatim>\<open>@_DateOfInquiry\<close>) and the six-month rule for charged-off accounts
  (\<^verbatim>\<open>@_DateLastActivity\<close>) each raise no violation then, in any result that the
  validator returns.
\<close>

theorem date_rules_short_circuit:
  "(noUsableDate h (getProp account ''@_DateOpened'') \<longrightarrow>
      (\<forall>r. validateAccount h account = Inr r \<longrightarrow>
         outdatedAccountViolation \<notin> set (violations r))) \<and>
   (noUsableDate h (jor (getProp record ''@_DateReported'') (getProp record ''@_DateFiled'')) \<longrightarrow>
      (\<forall>r. validatePublicRecord h record = Inr r \<longrightarrow>
         outdatedRecordViolation \<notin> set (violations r))) \<and>
   (noUsableDate h (getProp inquiry ''@_DateOfInquiry'') \<longrightarrow>
      (\<forall>r. validateInquiry h inquiry = Inr r \<longrightarrow>
         outdatedInquiryViolation \<notin> set (violations r))) \<and>
   (noUsableDate h (getProp account ''@_DateLastActivity'') \<longrightarrow>
      (\<forall>r. validateAccount h account = Inr r \<longrightarrow>
         chargeoffActivityViolation \<notin> set (violations r)))"
proof (intro conjI impI allI)
  fix r
  assume n: "noUsableDate h (getProp account ''@_DateOpened'')"
    and r: "validateAccount h account = Inr r"
  from r show "outdatedAccountViolation \<notin> set (violations r)"
  proof (rule validateAccount_result)
    fix ob
    assume d: "dateIsBefore h (getProp account ''@_DateOpened'') (sevenYearsAgo h) = Inr ob"
      and i: "(outdatedAccountViolation \<in> set (violations r)) =
           (ob \<and> eqStr (getProp account ''@_DerogatoryDataIndicator'') ''Y'')"
    from noUsableDate_before [OF n d] i show ?thesis by simp
  qed
next
  fix r
  assume n: "noUsableDate h (jor (getProp record ''@_DateReported'') (getProp record ''@_DateFiled''))"
    and r: "validatePublicRecord h record = Inr r"
  from r show "outdatedRecordViolation \<notin> set (violations r)"
  proof (rule outdatedRecord_iff)
    fix b
    assume d: "dateIsBefore h (jor (getProp record ''@_DateReported'') (getProp record ''@_DateFiled''))
       (sevenYearsAgo h) = Inr b"
      and i: "(outdatedRecordViolation \<in> set (violations r)) = b"
    from noUsableDate_before [OF n d] i show ?thesis by simp
  qed
next
  fix r
  assume n: "noUsableDate h (getProp inquiry ''@_DateOfInquiry'')"
    and r: "validateInquiry h inquiry = Inr r"
  from r show "outdatedInquiryViolation \<notin> set (violations r)"
  proof (rule outdatedInquiry_iff)
    fix b
    assume d: "dateIsBefore h (getProp inquiry ''@_DateOfInquiry'') (twoYearsAgo h) = Inr b"
      and i: "(outdatedInquiryViolation \<in> set (violations r)) = b"
    from noUsableDate_before [OF n d] i show ?thesis by simp
  qed
next
  fix r
  assume n: "noUsableDate h (getProp account ''@_DateLastActivity'')"
    and r: "validateAccount h account = Inr r"
  from r show "chargeoffActivityViolation \<notin> set (violations r)"
  proof (rule validateAccount_result)
    fix re
    assume d: "chargeoffRecentActivity h account = Inr re"
      and i: "(chargeoffActivityViolation \<in> set (violations r)) = re"
    from chargeoff_noUsableDate [OF n d] i show ?thesis by simp
  qed
qed

theorem date_rules_short_circuit_witness:
  "noUsableDate exampleHost
     (getProp [(''@_DateOpened'', JStr ''not a date''), (''@_DerogatoryDataIndicator'', JStr ''Y''),
               (''@IsChargeoffIndicator'', JStr ''Y'')] ''@_DateOpened'') \<and>
   noUsableDate exampleHost
     (getProp [(''@_DateOpened'', JStr ''not a date''), (''@_DerogatoryDataIndicator'', JStr ''Y''),
               (''@IsChargeoffIndicator'', JStr ''Y'')] ''@_DateLastActivity'') \<and>
   (\<exists>r. validateAccount exampleHost
           [(''@_DateOpened'', JStr ''not a date''), (''@_DerogatoryDataIndicator'', JStr ''Y''),
            (''@IsChargeoffIndicator'', JStr ''Y'')] = Inr r \<and>
        outdatedAccountViolation \<notin> set (violations r) \<and>
        chargeoffActivityViolation \<notin> set (violations r)) \<and>
   noUsableDate exampleHost
     (jor (getProp [(''@_DateFiled'', JStr ''unknown'')] ''@_DateReported'')
          (getProp [(''@_DateFiled'', JStr ''unknown'')] ''@_DateFiled'')) \<and>
   (\<exists>r. validatePublicRecord exampleHost [(''@_DateFiled'', JStr ''unknown'')] = Inr r \<and>
        outdatedRecordViolation \<notin> set (violations r)) \<and>
   noUsableDate exampleHost (getProp [] ''@_DateOfInquiry'') \<and>
   (\<exists>r. validateInquiry exampleHost [] = Inr r \<and>
        outdatedInquiryViolation \<notin> set (violations r))"
proof -
  let ?a = "[(''@_DateOpened'', JStr ''not a date''), (''@_DerogatoryDataIndicator'', JStr ''Y''),
             (''@IsChargeoffIndicator'', JStr ''Y'')]"
  let ?r = "[(''@_DateFiled'', JStr ''unknown'')]"
  have h1: "noUsableDate exampleHost (getProp ?a ''@_DateOpened'')"
    by (simp add: noUsableDate_def exampleHost_def getProp_def)
  have h2: "noUsableDate exampleHost (jor (getProp ?r ''@_DateReported'') (getProp ?r ''@_DateFiled''))"
    by (simp add: noUsableDate_def exampleHost_def getProp_def jor_def)
  have h3: "noUsableDate exampleHost (getProp [] ''@_DateOfInquiry'')"
    by (simp add: noUsableDate_def getProp_def)
  have h4: "noUsableDate exampleHost (getProp ?a ''@_DateLastActivity'')"
    by (simp add: noUsableDate_def getProp_def)
  have "plainItem ?a" by (simp add: plainItem_def)
  from validateAccount_plain [OF this]
  obtain ra where ra: "validateAccount exampleHost ?a = Inr ra" by blast
  have "plainItem ?r" by (simp add: plainItem_def)
  from validatePublicRecord_plain [OF this]
  obtain rr where rr: "validatePublicRecord exampleHost ?r = Inr rr" by blast
  have "plainItem []" by (simp add: plainItem_def)
  from validateInquiry_plain [OF this]
  obtain ri where ri: "validateInquiry exampleHost [] = Inr ri" by blast
  note t = date_rules_short_circuit [of exampleHost ?a ?r "[]"]
  from t h1 ra have 1: "outdatedAccountViolation \<notin> set (violations ra)" by blast
  from t h4 ra have 4: "chargeoffActivityViolation \<notin> set (violations ra)" by blast
  from t h2 rr have 2: "outdatedRecordViolation \<notin> set (violations rr)" by blast
  from t h3 ri have 3: "outdatedInquiryViolation \<notin> set (violations ri)" by blast
  from h1 h2 h3 h4 ra rr ri 1 2 3 4 show ?thesis by blast
qed




text \<open>
  C7. The claim is that an unparsable numeric field never makes evaluation fail and
  behaves exactly as the value 0 in every numeric predicate. The code departs from it
  at these inputs. \<^verbatim>\<open>parseInt\<close> of an unparsable text is \<^verbatim>\<open>NaN\<close>, and a comparison with
  \<^verbatim>\<open>NaN\<close> is false: a collection account with the balance "100" and the original
  balance "N/A" gets no violation, where the original balance "0" gives the
  "Misrepresenting the amount owed" violation. And a numeric field that holds an
  object with a key \<^verbatim>\<open>toString\<close> of its own makes \<^verbatim>\<open>parseInt\<close>, and with it the
  evaluation, throw a TypeError.
\<close>

theorem unparsable_balance_evaluation:
  "amountField exampleHost
     [(''@IsCollectionIndicator'', JStr ''Y''), (''@_CurrentBalance'', JStr ''100''),
      (''@_OriginalBalance'', JStr ''N/A'')] ''@_OriginalBalance'' = Inr None \<and>
   validateAccount exampleHost
     [(''@IsCollectionIndicator'', JStr ''Y''), (''@_CurrentBalance'', JStr ''100''),
      (''@_OriginalBalance'', JStr ''N/A'')] =
     Inr \<lparr>violations = [], suggestions = [], hasViolations = False,
          noViolationMessage = Some NO_VIOLATION_MESSAGE\<rparr> \<and>
   amountField exampleHost
     [(''@IsCollectionIndicator'', JStr ''Y''), (''@_CurrentBalance'', JStr ''100''),
      (''@_OriginalBalance'', JStr ''0'')] ''@_OriginalBalance'' = Inr (Some 0) \<and>
   map_sum id violations (validateAccount exampleHost
     [(''@IsCollectionIndicator'', JStr ''Y''), (''@_CurrentBalance'', JStr ''100''),
      (''@_OriginalBalance'', JStr ''0'')]) = Inr [misrepresentViolation] \<and>
   validateAccount exampleHost
     [(''@_CurrentBalance'', JStr ''100''),
      (''@_CreditLimit'', JObj [(''toString'', JNum 1)])] = Inl TypeError"
  by code_simp

text \<open>
  C4. An account whose \<^verbatim>\<open>@_DerogatoryDataIndicator\<close> is "Y" and whose
  \<^verbatim>\<open>@_DateOfFirstDelinquency\<close> is missing gets the Metro 2 "Missing Date of First
  Delinquency" violation, with the source "CRC Advanced Disputing Workbook, Page 3-46",
  in every result that \<^const>\<open>validateAccount\<close> returns for it. The condition triggers
  no other Metro 2 violation: the validator returns a result for the same account
  without the indicator too, and the Metro 2 violations of the account are this one
  and those of the account without the indicator. A result is returned (no conversion
  throws) whenever no field of the account is an object with a key \<^verbatim>\<open>toString\<close> of its
  own.
\<close>

theorem missing_first_delinquency_date:
  assumes derog: "eqStr (getProp account ''@_DerogatoryDataIndicator'') ''Y''"
    and nodate: "\<not> truthy (getProp account ''@_DateOfFirstDelinquency'')"
  shows "(\<forall>r. validateAccount h account = Inr r \<longrightarrow>
            missingDofdViolation \<in> set (violations r) \<and>
            (\<exists>r'. validateAccount h (withoutKey ''@_DerogatoryDataIndicator'' account) = Inr r' \<and>
               {v \<in> set (violations r). str_includes (violation v) ''Metro 2''} =
                 insert missingDofdViolation
                   {v \<in> set (violations r'). str_includes (violation v) ''Metro 2''})) \<and>
         (plainItem account \<longrightarrow> (\<exists>r. validateAccount h account = Inr r)) \<and>
         str_includes (violation missingDofdViolation) ''Metro 2'' \<and>
         str_includes (violation missingDofdViolation) ''Missing Date of First Delinquency'' \<and>
         source missingDofdViolation = ''CRC Advanced Disputing Workbook, Page 3-46''"
proof (intro conjI allI impI)
  fix r assume r: "validateAccount h account = Inr r"
  from r derog nodate show "missingDofdViolation \<in> set (violations r)"
    by (auto elim!: validateAccount_result)
  from metro2_part_withoutKey [OF derog nodate r]
  show "\<exists>r'. validateAccount h (withoutKey ''@_DerogatoryDataIndicator'' account) = Inr r' \<and>
               {v \<in> set (violations r). str_includes (violation v) ''Metro 2''} =
                 insert missingDofdViolation
                   {v \<in> set (violations r'). str_includes (violation v) ''Metro 2''}" .
next
  assume "plainItem account"
  then show "\<exists>r. validateAccount h account = Inr r" by (rule validateAccount_plain)
next
  from missingDofd_text show "str_includes (violation missingDofdViolation) ''Metro 2''" by simp
  from missingDofd_text
  show "str_includes (violation missingDofdViolation) ''Missing Date of First Delinquency''"
    by simp
  from missingDofd_text
  show "source missingDofdViolation = ''CRC Advanced Disputing Workbook, Page 3-46''" by simp
qed

theorem missing_first_delinquency_date_witness:
  "eqStr (getProp [(''@_DerogatoryDataIndicator'', JStr ''Y'')] ''@_DerogatoryDataIndicator'') ''Y'' \<and>
   \<not> truthy (getProp [(''@_DerogatoryDataIndicator'', JStr ''Y'')] ''@_DateOfFirstDelinquency'') \<and>
   plainItem [(''@_DerogatoryDataIndicator'', JStr ''Y'')] \<and>
   (\<exists>r. validateAccount exampleHost [(''@_DerogatoryDataIndicator'', JStr ''Y'')] = Inr r \<and>
      missingDofdViolation \<in> set (violations r) \<and>
      {v \<in> set (violations r). str_includes (violation v) ''Metro 2''} = {missingDofdViolation})"
proof -
  let ?a = "[(''@_DerogatoryDataIndicator'', JStr ''Y'')]"
  have d: "eqStr (getProp ?a ''@_DerogatoryDataIndicator'') ''Y''"
    by (simp add: eqStr_def getProp_def)
  have n: "\<not> truthy (getProp ?a ''@_DateOfFirstDelinquency'')"
    by (simp add: getProp_def)
  have p: "plainItem ?a" by (simp add: plainItem_def)
  have w: "withoutKey ''@_DerogatoryDataIndicator'' ?a = []"
    by (simp add: withoutKey_def)
  have e: "validateAccount exampleHost [] =
     Inr \<lparr>violations = [], suggestions = [], hasViolations = False,
          noViolationMessage = Some NO_VIOLATION_MESSAGE\<rparr>"
    by code_simp
  note t = missing_first_delinquency_date [OF d n, of exampleHost]
  from t p obtain r where r: "validateAccount exampleHost ?a = Inr r" by blast
  from t r have 1: "missingDofdViolation \<in> set (violations r)" by blast
  from t r obtain r' where r': "validateAccount exampleHost (withoutKey ''@_DerogatoryDataIndicator'' ?a) = Inr r'"
    and s: "{v \<in> set (violations r). str_includes (violation v) ''Metro 2''} =
                 insert missingDofdViolation
                   {v \<in> set (violations r'). str_includes (violation v) ''Metro 2''}" by blast
  from r' have "r' = \<lparr>violations = [], suggestions = [], hasViolations = False,
          noViolationMessage = Some NO_VIOLATION_MESSAGE\<rparr>"
    unfolding w e by simp
  then have "violations r' = []" by simp
  with s have 2: "{v \<in> set (violations r). str_includes (violation v) ''Metro 2''} = {missingDofdViolation}"
    by simp
  from d n p r 1 2 show ?thesis by blast
qed

text \<open>
  C6, as stated: after the duplicates are removed the result is a stable partition
  (texts with "Metro 2", then with "FCRA", then with "FDCPA", then the rest) that keeps
  the relative order inside each part. Two texts of the repository that both contain
  "Metro 2" come out in the opposite order, because the second also contains "FDCPA".
\<close>

theorem normalize_partition_counterexample:
  "str_includes crcDerogatoryText ''Metro 2'' \<and> str_includes crcCollectionText ''Metro 2'' \<and>
   claimedOrder (\<lambda>s. s) (keepFirst (\<lambda>s. s) [] [crcDerogatoryText, crcCollectionText]) =
     [crcDerogatoryText, crcCollectionText] \<and>
   removeDuplicateSuggestions [crcDerogatoryText, crcCollectionText] =
     [crcCollectionText, crcDerogatoryText]"
  by code_simp

text \<open>
  C6, amended: normalization removes duplicates by equality of the trimmed texts (the
  first occurrence stays), then orders the result by the three containment tests
  compared one after the other: texts with "Metro 2" first; among texts that agree on
  "Metro 2", those with "FCRA" first; among texts that agree on both, those with
  "FDCPA" first; texts that agree on all three keep their relative order. On a list
  whose texts each contain at most one of the three words this is the stable partition
  of the claim. It holds for the suggestion strings and for the violation records.
\<close>

theorem normalize_first_occurrence_category_order:
  "removeDuplicateSuggestions ss = categoryOrder (\<lambda>s. s) (keepFirst (\<lambda>s. s) [] ss) \<and>
   removeDuplicatesAndSort vs = categoryOrder violation (keepFirst violation [] vs) \<and>
   ((\<forall>s\<in>set ss. singleCategory s) \<longrightarrow>
      removeDuplicateSuggestions ss = claimedOrder (\<lambda>s. s) (keepFirst (\<lambda>s. s) [] ss)) \<and>
   ((\<forall>v\<in>set vs. singleCategory (violation v)) \<longrightarrow>
      removeDuplicatesAndSort vs = claimedOrder violation (keepFirst violation [] vs))"
proof -
  have s: "removeDuplicateSuggestions ss = categoryOrder (\<lambda>s. s) (keepFirst (\<lambda>s. s) [] ss)"
    by (simp add: removeDuplicateSuggestions_def uniqueBy_keepFirst
          jsSort_categoryOrder [of "\<lambda>s. s"])
  have v: "removeDuplicatesAndSort vs = categoryOrder violation (keepFirst violation [] vs)"
    by (simp add: removeDuplicatesAndSort_def uniqueBy_keepFirst jsSort_categoryOrder)
  have s1: "removeDuplicateSuggestions ss = claimedOrder (\<lambda>s. s) (keepFirst (\<lambda>s. s) [] ss)"
    if "\<forall>s\<in>set ss. singleCategory s"
  proof -
    from that set_keepFirst [of "\<lambda>s. s" "[]" ss]
    have "\<forall>x\<in>set (keepFirst (\<lambda>s. s) [] ss). singleCategory x" by blast
    from single_categoryOrder [of "keepFirst (\<lambda>s. s) [] ss" "\<lambda>s. s", OF this] s
    show ?thesis by simp
  qed
  have v1: "removeDuplicatesAndSort vs = claimedOrder violation (keepFirst violation [] vs)"
    if "\<forall>v\<in>set vs. singleCategory (violation v)"
  proof -
    from that set_keepFirst [of violation "[]" vs]
    have "\<forall>x\<in>set (keepFirst violation [] vs). singleCategory (violation x)" by blast
    from single_categoryOrder [of "keepFirst violation [] vs" violation, OF this] v
    show ?thesis by simp
  qed
  from s v s1 v1 show ?thesis by blast
qed

theorem normalize_first_occurrence_category_order_witness:
  "list_all singleCategory
     [''FDCPA a'', ''Metro 2 b'', '' FCRA c'', ''FDCPA a  '', ''other'', ''Metro 2 d''] \<and>
   removeDuplicateSuggestions [''FDCPA a'', ''Metro 2 b'', '' FCRA c'', ''FDCPA a  '', ''other'', ''Metro 2 d''] =
     [''Metro 2 b'', ''Metro 2 d'', '' FCRA c'', ''FDCPA a'', ''other''] \<and>
   list_all (\<lambda>v. singleCategory (violation v))
     [outdatedInquiryViolation, missingPurposeViolation, outdatedInquiryViolation] \<and>
   removeDuplicatesAndSort [outdatedInquiryViolation, missingPurposeViolation, outdatedInquiryViolation] =
     [missingPurposeViolation, outdatedInquiryViolation]"
proof -
  let ?ss = "[''FDCPA a'', ''Metro 2 b'', '' FCRA c'', ''FDCPA a  '', ''other'', ''Metro 2 d'']"
  let ?vs = "[outdatedInquiryViolation, missingPurposeViolation, outdatedInquiryViolation]"
  note T = normalize_first_occurrence_category_order [of ?ss ?vs]
  have a: "\<forall>s\<in>set ?ss. singleCategory s" by code_simp
  have b: "\<forall>v\<in>set ?vs. singleCategory (violation v)" by code_simp
  have c: "claimedOrder (\<lambda>s. s) (keepFirst (\<lambda>s. s) [] ?ss) =
      [''Metro 2 b'', ''Metro 2 d'', '' FCRA c'', ''FDCPA a'', ''other'']" by code_simp
  have d: "claimedOrder violation (keepFirst violation [] ?vs) =
      [missingPurposeViolation, outdatedInquiryViolation]" by code_simp
  from T have "(\<forall>s\<in>set ?ss. singleCategory s) \<longrightarrow>
      removeDuplicateSuggestions ?ss = claimedOrder (\<lambda>s. s) (keepFirst (\<lambda>s. s) [] ?ss)"
    by (rule conjunct1 [OF conjunct2 [OF conjunct2]])
  from trans [OF mp [OF this a] c]
  have r1: "removeDuplicateSuggestions ?ss =
      [''Metro 2 b'', ''Metro 2 d'', '' FCRA c'', ''FDCPA a'', ''other'']" .
  from T have "(\<forall>v\<in>set ?vs. singleCategory (violation v)) \<longrightarrow>
      removeDuplicatesAndSort ?vs = claimedOrder violation (keepFirst violation [] ?vs)"
    by (rule conjunct2 [OF conjunct2 [OF conjunct2]])
  from trans [OF mp [OF this b] d]
  have r2: "removeDuplicatesAndSort ?vs = [missingPurposeViolation, outdatedInquiryViolation]" .
  from a have a': "list_all singleCategory ?ss" by (simp only: list_all_iff)
  from b have b': "list_all (\<lambda>v. singleCategory (violation v)) ?vs" by (simp only: list_all_iff)
  from a' r1 b' r2 show ?thesis by (intro conjI)
qed

section \<open>Claims about the scans\<close>




end
